theory Spec2Isabelle
  imports Main "HOL-Library.Multiset" "HOL-Library.Sublist" "HOL-Library.AList"
begin

section \<open>JavaScript strings\<close>

text \<open>
  The changeset scripts (\<^verbatim>\<open>scripts/validate-changeset.mjs\<close> and
  \<^verbatim>\<open>scripts/merge-changesets.mjs\<close>) work on JavaScript strings. A string is
  modelled as a \<^typ>\<open>string\<close>, one \<^typ>\<open>char\<close> per code unit, so the model covers
  the texts whose code units are below 256. Among these the white space of
  \<^verbatim>\<open>\s\<close> and of \<^verbatim>\<open>String.prototype.trim\<close> is TAB, LF, VT, FF, CR, SPACE and
  NBSP, and the line terminators seen by \<^verbatim>\<open>^\<close> under the \<^verbatim>\<open>m\<close> flag are LF
  and CR.
\<close>

definition isWhiteSpace :: "char \<Rightarrow> bool" where
  "isWhiteSpace c \<longleftrightarrow>
     c \<in> {CHR 0x09, CHR 0x0A, CHR 0x0B, CHR 0x0C, CHR 0x0D, CHR 0x20, CHR 0xA0}"

definition isLineTerminator :: "char \<Rightarrow> bool" where
  "isLineTerminator c \<longleftrightarrow> c = CHR 0x0A \<or> c = CHR 0x0D"

definition isQuote :: "char \<Rightarrow> bool" where
  "isQuote c \<longleftrightarrow> c = CHR 0x27 \<or> c = CHR 0x22"

text \<open>\<^verbatim>\<open>s.trim()\<close>\<close>

definition trim :: "string \<Rightarrow> string" where
  "trim s = rev (dropWhile isWhiteSpace (rev (dropWhile isWhiteSpace s)))"

text \<open>\<^verbatim>\<open>s.startsWith(p)\<close> and \<^verbatim>\<open>s.endsWith(p)\<close>\<close>

definition startsWith :: "string \<Rightarrow> string \<Rightarrow> bool" where
  "startsWith s p \<longleftrightarrow> take (length p) s = p"

definition endsWith :: "string \<Rightarrow> string \<Rightarrow> bool" where
  "endsWith s p \<longleftrightarrow> length p \<le> length s \<and> drop (length s - length p) s = p"

text \<open>
  \<^verbatim>\<open>s.split(sep)\<close> for a string separator: the text is cut at every occurrence of
  \<open>sep\<close>, found from left to right without overlap; \<open>acc\<close> holds the current
  segment in reverse. An empty separator cuts between all code units.
\<close>

fun split_go :: "string \<Rightarrow> string \<Rightarrow> string \<Rightarrow> string list" where
  "split_go sep acc [] = [rev acc]"
| "split_go sep acc (c # cs) =
     (if sep \<noteq> [] \<and> prefix sep (c # cs)
      then rev acc # split_go sep [] (drop (length sep) (c # cs))
      else split_go sep (c # acc) cs)"

definition split :: "string \<Rightarrow> string \<Rightarrow> string list" where
  "split sep s = (if sep = [] then map (\<lambda>c. [c]) s else split_go sep [] s)"

text \<open>\<^verbatim>\<open>parts.join(sep)\<close>\<close>

fun join :: "string \<Rightarrow> string list \<Rightarrow> string" where
  "join sep [] = []"
| "join sep [x] = x"
| "join sep (x # y # ys) = x @ sep @ join sep (y # ys)"

section \<open>The version type pattern\<close>

text \<open>
  Both scripts build a regular expression from the package name, escaped so that it
  stands for itself:

  \<^verbatim>\<open>^['"]NAME['"]:\s+(major|minor|patch)\<close> with flag \<^verbatim>\<open>m\<close> in the validator,
  \<^verbatim>\<open>^['"]?NAME['"]?:\s+(major|minor|patch)\<close> with flag \<^verbatim>\<open>m\<close> in the merger.

  The matcher below follows the backtracking order of the engine. \<open>quoteAlts\<close> lists
  what may remain after the quote class, the greedy alternative first; the flag says
  whether the class carries \<^verbatim>\<open>?\<close>. After the colon, \<^verbatim>\<open>\s+\<close> takes at least one
  white space; since none of the three literals begins with white space, only the
  longest run can be followed by one of them. \<open>scanLines\<close> tries the start of the
  input and then every position that follows a line terminator, and yields the
  capture group of the leftmost match.
\<close>

definition quoteAlts :: "bool \<Rightarrow> string \<Rightarrow> string list" where
  "quoteAlts optional s =
     (case s of [] \<Rightarrow> [] | c # cs \<Rightarrow> if isQuote c then [cs] else [])
     @ (if optional then [s] else [])"

definition bumpLiteral :: "string \<Rightarrow> string option" where
  "bumpLiteral s =
     (if prefix ''major'' s then Some ''major''
      else if prefix ''minor'' s then Some ''minor''
      else if prefix ''patch'' s then Some ''patch''
      else None)"

definition afterColon :: "string \<Rightarrow> string option" where
  "afterColon s =
     (case s of
        [] \<Rightarrow> None
      | c # cs \<Rightarrow>
          if c = CHR '':'' \<and> takeWhile isWhiteSpace cs \<noteq> []
          then bumpLiteral (dropWhile isWhiteSpace cs)
          else None)"

fun firstSome :: "('a \<Rightarrow> 'b option) \<Rightarrow> 'a list \<Rightarrow> 'b option" where
  "firstSome f [] = None"
| "firstSome f (x # xs) = (case f x of Some y \<Rightarrow> Some y | None \<Rightarrow> firstSome f xs)"

definition afterName :: "string \<Rightarrow> bool \<Rightarrow> string \<Rightarrow> string option" where
  "afterName pkg optional s =
     (if prefix pkg s
      then firstSome afterColon (quoteAlts optional (drop (length pkg) s))
      else None)"

definition matchHere :: "string \<Rightarrow> bool \<Rightarrow> string \<Rightarrow> string option" where
  "matchHere pkg optional s = firstSome (afterName pkg optional) (quoteAlts optional s)"

fun scanLines :: "(string \<Rightarrow> 'a option) \<Rightarrow> bool \<Rightarrow> string \<Rightarrow> 'a option" where
  "scanLines m atLineStart [] = (if atLineStart then m [] else None)"
| "scanLines m atLineStart (c # cs) =
     (case (if atLineStart then m (c # cs) else None) of
        Some r \<Rightarrow> Some r
      | None \<Rightarrow> scanLines m (isLineTerminator c) cs)"

definition versionTypeMatch :: "string \<Rightarrow> bool \<Rightarrow> string \<Rightarrow> string option" where
  "versionTypeMatch pkg optional content = scanLines (matchHere pkg optional) True content"

section \<open>The changeset directory\<close>

text \<open>
  The scripts reach the file system through \<^verbatim>\<open>existsSync\<close>, \<^verbatim>\<open>readdirSync\<close>,
  \<^verbatim>\<open>readFileSync\<close>, \<^verbatim>\<open>statSync\<close>, \<^verbatim>\<open>writeFileSync\<close> and \<^verbatim>\<open>unlinkSync\<close>,
  always on \<^verbatim>\<open>.changeset\<close> or on \<^verbatim>\<open>join('.changeset', name)\<close>. The state is what
  stands at the path \<^verbatim>\<open>.changeset\<close>:
  \<^item> nothing (\<open>Absent\<close>);
  \<^item> something that cannot be used as a directory (\<open>Unlistable\<close>): a plain file,
    on which every operation throws \<^verbatim>\<open>ENOTDIR\<close>, or a directory the process may
    not open, on which every operation throws \<^verbatim>\<open>EACCES\<close>;
  \<^item> a directory (\<open>Listing\<close>), given by the list of its entries in the order
    \<^verbatim>\<open>readdirSync\<close> enumerates them.

  An entry has the modification time the file system keeps, in nanoseconds, and a
  content; an entry that cannot be read as a file (a subdirectory) has no content.
  The operations take the name of the entry. Each operation that throws in the
  source returns \<open>Inl\<close> here.
\<close>

definition PACKAGE_NAME :: string where
  "PACKAGE_NAME = ''my-package''"

datatype fs_error = ENOENT | EISDIR | ENOTDIR | EACCES

record node =
  content :: "string option"
  mtimeNs :: int

datatype fs = Absent | Unlistable fs_error | Listing "(string \<times> node) list"

definition existsSync :: "fs \<Rightarrow> bool" where
  "existsSync fs \<longleftrightarrow> fs \<noteq> Absent"

definition readdirSync :: "fs \<Rightarrow> fs_error + string list" where
  "readdirSync fs =
     (case fs of
        Absent \<Rightarrow> Inl ENOENT
      | Unlistable e \<Rightarrow> Inl e
      | Listing es \<Rightarrow> Inr (map fst es))"

definition lookupNode :: "fs \<Rightarrow> string \<Rightarrow> fs_error + node" where
  "lookupNode fs name =
     (case fs of
        Absent \<Rightarrow> Inl ENOENT
      | Unlistable e \<Rightarrow> Inl e
      | Listing es \<Rightarrow> (case map_of es name of None \<Rightarrow> Inl ENOENT | Some n \<Rightarrow> Inr n))"

definition readFileSync :: "fs \<Rightarrow> string \<Rightarrow> fs_error + string" where
  "readFileSync fs name =
     (case lookupNode fs name of
        Inl e \<Rightarrow> Inl e
      | Inr n \<Rightarrow> (case content n of None \<Rightarrow> Inl EISDIR | Some c \<Rightarrow> Inr c))"

text \<open>
  \<^verbatim>\<open>statSync(path).mtime\<close> is a \<^verbatim>\<open>Date\<close>, and a \<^verbatim>\<open>Date\<close> holds a whole number
  of milliseconds, the value \<^verbatim>\<open>getTime()\<close> returns. Node makes it from the time of
  the file in milliseconds, \<^verbatim>\<open>mtimeMs\<close>, with \<^verbatim>\<open>new Date(Math.round(mtimeMs))\<close>:
  the nearest whole millisecond, a half rounded up. \<open>dateFromNs\<close> is that value for
  a time in nanoseconds (the quotient is taken exactly; the sample inputs stay
  away from the halves, where the floating point quotient could fall on the other
  side). \<open>statSync\<close> returns the time value of \<^verbatim>\<open>stats.mtime\<close>.
\<close>

definition dateFromNs :: "int \<Rightarrow> int" where
  "dateFromNs ns = (ns + 500000) div 1000000"

definition statSync :: "fs \<Rightarrow> string \<Rightarrow> fs_error + int" where
  "statSync fs name =
     (case lookupNode fs name of Inl e \<Rightarrow> Inl e | Inr n \<Rightarrow> Inr (dateFromNs (mtimeNs n)))"

section \<open>The validator's parser\<close>

text \<open>
  \<^verbatim>\<open>validateChangesetFile\<close> of \<^verbatim>\<open>validate-changeset.mjs\<close>. The result
  \<^verbatim>\<open>{valid: false, error}\<close> is \<open>Inl\<close> of the reason, \<^verbatim>\<open>{valid: true, type,
  description}\<close> is \<open>Inr (type, description)\<close>. The \<^verbatim>\<open>catch\<close> branch is the
  reason \<open>ReadFailed\<close>.
\<close>

datatype validation_error =
    MissingVersionType
  | MissingDescription
  | EmptyDescription
  | ReadFailed fs_error

definition validateChangesetFile :: "fs \<Rightarrow> string \<Rightarrow> validation_error + string \<times> string" where
  "validateChangesetFile fs name =
     (case readFileSync fs name of
        Inl e \<Rightarrow> Inl (ReadFailed e)
      | Inr text \<Rightarrow>
          (case versionTypeMatch PACKAGE_NAME False text of
             None \<Rightarrow> Inl MissingVersionType
           | Some t \<Rightarrow>
               let parts = split ''---'' text in
               if length parts < 3 then Inl MissingDescription
               else
                 let description = trim (join ''---'' (drop 2 parts)) in
                 if description = [] then Inl EmptyDescription
                 else Inr (t, description)))"

section \<open>The merger's parser\<close>

text \<open>
  \<^verbatim>\<open>parseChangeset\<close> of \<^verbatim>\<open>merge-changesets.mjs\<close>: \<open>None\<close> is the source's
  \<^verbatim>\<open>null\<close>, returned when the version type does not match and from the
  \<^verbatim>\<open>catch\<close> branch. The field \<open>mtime\<close> of the record is the time value of the
  \<^verbatim>\<open>Date\<close> \<^verbatim>\<open>stats.mtime\<close>, in whole milliseconds.
\<close>

record parsed =
  type :: string
  description :: string
  mtime :: int

definition parseChangeset :: "fs \<Rightarrow> string \<Rightarrow> parsed option" where
  "parseChangeset fs name =
     (case readFileSync fs name of
        Inl e \<Rightarrow> None
      | Inr text \<Rightarrow>
          (case statSync fs name of
             Inl e \<Rightarrow> None
           | Inr m \<Rightarrow>
               (case versionTypeMatch PACKAGE_NAME True text of
                  None \<Rightarrow> None
                | Some t \<Rightarrow>
                    let parts = split ''---'' text;
                        description =
                          (if length parts \<ge> 3 then trim (join ''---'' (drop 2 parts)) else [])
                    in Some \<lparr>type = t, description = description, mtime = m\<rparr>)))"

section \<open>The detector of added changesets\<close>

text \<open>
  \<^verbatim>\<open>validate-changeset.mjs\<close> asks git which changesets the pull request adds.
  Git is a collaborator: its repository state is abstract (\<open>'g\<close>) and each
  command the script runs is a field of the interface. A command run through
  \<^verbatim>\<open>execSync\<close> throws when it exits with an error: \<open>catFile\<close> tells whether
  \<^verbatim>\<open>git cat-file -e\<close> succeeds, a fetch returns whether it succeeded and the state
  it leaves, a diff returns its output, or \<open>None\<close> when it fails.
\<close>

record 'g git =
  catFile :: "'g \<Rightarrow> string \<Rightarrow> bool"
  fetchRef :: "'g \<Rightarrow> string \<Rightarrow> bool \<times> 'g"
  fetchOrigin :: "'g \<Rightarrow> bool \<times> 'g"
  diffShas :: "'g \<Rightarrow> string \<Rightarrow> string \<Rightarrow> string option"
  diffBranch :: "'g \<Rightarrow> string \<Rightarrow> string option"

definition CHANGESET_DIR :: string where
  "CHANGESET_DIR = ''.changeset''"

text \<open>
  \<^verbatim>\<open>ensureCommitAvailable\<close>: the flag is \<open>False\<close> when the function throws, which
  it does when both fetches fail.
\<close>

definition ensureCommitAvailable :: "'g git \<Rightarrow> 'g \<Rightarrow> string \<Rightarrow> bool \<times> 'g" where
  "ensureCommitAvailable git g sha =
     (if catFile git g sha then (True, g)
      else
        (case fetchRef git g sha of
           (True, g1) \<Rightarrow> (True, g1)
         | (False, g1) \<Rightarrow> fetchOrigin git g1))"

text \<open>
  \<^verbatim>\<open>parseAddedChangesets\<close>. A line is destructured into \<^verbatim>\<open>[status, filePath]\<close>;
  when the status is \<^verbatim>\<open>A\<close> and the line has no tab, \<^verbatim>\<open>filePath\<close> is
  \<^verbatim>\<open>undefined\<close> and \<^verbatim>\<open>filePath.startsWith\<close> throws: the result is \<open>None\<close>.
  Under \<^verbatim>\<open>startsWith\<close> the first occurrence that \<^verbatim>\<open>replace\<close> removes is the
  prefix.
\<close>

definition addedChangesetOfLine :: "string \<Rightarrow> string list option" where
  "addedChangesetOfLine line =
     (if line = [] then Some []
      else
        (case split [CHR 0x09] line of
           [] \<Rightarrow> Some []
         | [status] \<Rightarrow> if status = ''A'' then None else Some []
         | status # filePath # _ \<Rightarrow>
             if status = ''A''
                \<and> startsWith filePath (CHANGESET_DIR @ ''/'')
                \<and> endsWith filePath ''.md''
                \<and> \<not> endsWith filePath ''README.md''
             then Some [drop (length (CHANGESET_DIR @ ''/'')) filePath]
             else Some []))"

fun collectAdded :: "string list \<Rightarrow> string list option" where
  "collectAdded [] = Some []"
| "collectAdded (line # lines) =
     (case addedChangesetOfLine line of
        None \<Rightarrow> None
      | Some xs \<Rightarrow> (case collectAdded lines of None \<Rightarrow> None | Some ys \<Rightarrow> Some (xs @ ys)))"

definition parseAddedChangesets :: "string \<Rightarrow> string list option" where
  "parseAddedChangesets diffOutput = collectAdded (split ''\<newline>'' (trim diffOutput))"

text \<open>
  \<^verbatim>\<open>tryExplicitShaComparison\<close> and \<^verbatim>\<open>tryBaseBranchComparison\<close>: the result is the
  list, or \<open>None\<close> for \<^verbatim>\<open>null\<close>, with the repository state the commands leave.
\<close>

definition tryExplicitShaComparison ::
  "'g git \<Rightarrow> 'g \<Rightarrow> string \<Rightarrow> string \<Rightarrow> string list option \<times> 'g" where
  "tryExplicitShaComparison git g baseSha headSha =
     (case ensureCommitAvailable git g baseSha of
        (False, g1) \<Rightarrow> (None, g1)
      | (True, g1) \<Rightarrow>
          (case diffShas git g1 baseSha headSha of
             None \<Rightarrow> (None, g1)
           | Some diffOutput \<Rightarrow> (parseAddedChangesets diffOutput, g1)))"

definition tryBaseBranchComparison ::
  "'g git \<Rightarrow> 'g \<Rightarrow> string \<Rightarrow> string list option \<times> 'g" where
  "tryBaseBranchComparison git g prBase =
     (let g1 = snd (fetchRef git g prBase) in
      case diffBranch git g1 prBase of
        None \<Rightarrow> (None, g1)
      | Some diffOutput \<Rightarrow> (parseAddedChangesets diffOutput, g1))"

text \<open>\<^verbatim>\<open>getAllChangesets\<close>, the fallback.\<close>

definition isChangesetFile :: "string \<Rightarrow> bool" where
  "isChangesetFile file \<longleftrightarrow> endsWith file ''.md'' \<and> file \<noteq> ''README.md''"

definition getAllChangesets :: "fs \<Rightarrow> fs_error + string list" where
  "getAllChangesets fs =
     (if \<not> existsSync fs then Inr []
      else
        (case readdirSync fs of
           Inl e \<Rightarrow> Inl e
         | Inr names \<Rightarrow> Inr (filter isChangesetFile names)))"

text \<open>
  \<^verbatim>\<open>getAddedChangesetFiles\<close>. The environment maps a variable to its value when it
  is set. \<^verbatim>\<open>a || b\<close> is \<open>a\<close> when \<open>a\<close> is truthy, that is set and not empty.
  \<open>explicitShas\<close> is the pair when \<^verbatim>\<open>baseSha && headSha\<close> holds, \<open>baseRef\<close> the
  branch name when \<^verbatim>\<open>prBase\<close> is truthy. A strategy that is not tried produces
  no list.
\<close>

type_synonym env = "string \<Rightarrow> string option"

definition truthy :: "string option \<Rightarrow> bool" where
  "truthy v \<longleftrightarrow> (case v of None \<Rightarrow> False | Some s \<Rightarrow> s \<noteq> [])"

definition orElse :: "string option \<Rightarrow> string option \<Rightarrow> string option" where
  "orElse a b = (if truthy a then a else b)"

definition explicitShas :: "env \<Rightarrow> (string \<times> string) option" where
  "explicitShas env =
     (let baseSha = orElse (env ''GITHUB_BASE_SHA'') (env ''BASE_SHA'');
          headSha = orElse (env ''GITHUB_HEAD_SHA'') (env ''HEAD_SHA'')
      in case (baseSha, headSha) of
           (Some b, Some h) \<Rightarrow> if b \<noteq> [] \<and> h \<noteq> [] then Some (b, h) else None
         | _ \<Rightarrow> None)"

definition baseRef :: "env \<Rightarrow> string option" where
  "baseRef env =
     (case env ''GITHUB_BASE_REF'' of
        None \<Rightarrow> None
      | Some prBase \<Rightarrow> if prBase \<noteq> [] then Some prBase else None)"

definition getAddedChangesetFiles ::
  "env \<Rightarrow> 'g git \<Rightarrow> 'g \<Rightarrow> fs \<Rightarrow> fs_error + string list" where
  "getAddedChangesetFiles env git g fs =
     (let (result1, g1) =
            (case explicitShas env of
               Some (baseSha, headSha) \<Rightarrow> tryExplicitShaComparison git g baseSha headSha
             | None \<Rightarrow> (None, g))
      in case result1 of
           Some result \<Rightarrow> Inr result
         | None \<Rightarrow>
             (let (result2, g2) =
                    (case baseRef env of
                       Some prBase \<Rightarrow> tryBaseBranchComparison git g1 prBase
                     | None \<Rightarrow> (None, g1))
              in case result2 of
                   Some result \<Rightarrow> Inr result
                 | None \<Rightarrow> getAllChangesets fs))"

section \<open>The validator\<close>

text \<open>
  The body of \<^verbatim>\<open>validate-changeset.mjs\<close> after the detection. Every
  \<^verbatim>\<open>process.exit(1)\<close> is an outcome of its own: no changeset, several changesets
  (the script prints each of them), an invalid changeset with the reason, and the
  outer \<^verbatim>\<open>catch\<close>.
\<close>

datatype validation_outcome =
    Passed string string
  | MissingChangeset
  | TooManyChangesets "string list"
  | InvalidChangeset validation_error
  | ValidationCrashed fs_error

definition validate :: "fs \<Rightarrow> string list \<Rightarrow> validation_outcome" where
  "validate fs addedChangesetFiles =
     (let changesetCount = length addedChangesetFiles in
      if changesetCount = 0 then MissingChangeset
      else if changesetCount > 1 then TooManyChangesets addedChangesetFiles
      else
        (case validateChangesetFile fs (addedChangesetFiles ! 0) of
           Inl e \<Rightarrow> InvalidChangeset e
         | Inr (t, d) \<Rightarrow> Passed t d))"

definition validateMain :: "env \<Rightarrow> 'g git \<Rightarrow> 'g \<Rightarrow> fs \<Rightarrow> validation_outcome" where
  "validateMain env git g fs =
     (case getAddedChangesetFiles env git g fs of
        Inl e \<Rightarrow> ValidationCrashed e
      | Inr addedChangesetFiles \<Rightarrow> validate fs addedChangesetFiles)"

section \<open>The merger\<close>

subsection \<open>Bump priority\<close>

text \<open>
  \<^verbatim>\<open>BUMP_PRIORITY\<close> is an object with three keys; looking up any other type gives
  a value that is not a number, and \<^verbatim>\<open>>\<close> is false as soon as one side is not a
  number.
\<close>

definition BUMP_PRIORITY :: "string \<Rightarrow> nat option" where
  "BUMP_PRIORITY k =
     (if k = ''patch'' then Some 1
      else if k = ''minor'' then Some 2
      else if k = ''major'' then Some 3
      else None)"

definition gtNumber :: "nat option \<Rightarrow> nat option \<Rightarrow> bool" where
  "gtNumber a b = (case (a, b) of (Some x, Some y) \<Rightarrow> x > y | _ \<Rightarrow> False)"

fun highestFrom :: "string \<Rightarrow> string list \<Rightarrow> string" where
  "highestFrom highest [] = highest"
| "highestFrom highest (t # types) =
     highestFrom
       (if gtNumber (BUMP_PRIORITY t) (BUMP_PRIORITY highest) then t else highest) types"

definition getHighestBumpType :: "string list \<Rightarrow> string" where
  "getHighestBumpType types = highestFrom ''patch'' types"

subsection \<open>The name of the merged changeset\<close>

text \<open>
  \<^verbatim>\<open>generateChangesetName\<close> draws two indices with
  \<^verbatim>\<open>Math.floor(Math.random() * length)\<close>; the model takes the two indices as
  its argument. Reading an array out of range gives \<^verbatim>\<open>undefined\<close>, which the
  template prints as such.
\<close>

definition adjectives :: "string list" where
  "adjectives =
     [''bright'', ''calm'', ''cool'', ''cyan'', ''dark'', ''fast'', ''gold'', ''good'',
      ''green'', ''happy'', ''kind'', ''loud'', ''neat'', ''nice'', ''pink'', ''proud'',
      ''quick'', ''red'', ''rich'', ''safe'', ''shy'', ''soft'', ''sweet'', ''tall'',
      ''warm'', ''wise'', ''young'']"

definition nouns :: "string list" where
  "nouns =
     [''apple'', ''bird'', ''book'', ''car'', ''cat'', ''cloud'', ''desk'', ''dog'',
      ''door'', ''fish'', ''flower'', ''frog'', ''grass'', ''house'', ''key'', ''lake'',
      ''leaf'', ''moon'', ''mouse'', ''owl'', ''park'', ''rain'', ''river'', ''rock'',
      ''sea'', ''star'', ''sun'', ''tree'', ''wave'', ''wind'']"

definition elementAt :: "string list \<Rightarrow> nat \<Rightarrow> string" where
  "elementAt xs i = (if i < length xs then xs ! i else ''undefined'')"

definition generateChangesetName :: "nat \<times> nat \<Rightarrow> string" where
  "generateChangesetName rnd =
     elementAt adjectives (fst rnd) @ ''-'' @ elementAt nouns (snd rnd)"

subsection \<open>Writing and removing files\<close>

text \<open>
  \<^verbatim>\<open>writeFileSync\<close> replaces the content of an existing file and creates a missing
  one, stamped with the current time (in nanoseconds); \<^verbatim>\<open>unlinkSync\<close> removes a
  file. Both throw when there is no usable directory or the entry is a
  subdirectory, and \<^verbatim>\<open>unlinkSync\<close> when there is no such entry.
\<close>

definition writeFileSync :: "fs \<Rightarrow> string \<Rightarrow> string \<Rightarrow> int \<Rightarrow> fs_error + fs" where
  "writeFileSync fs name text now =
     (case fs of
        Absent \<Rightarrow> Inl ENOENT
      | Unlistable e \<Rightarrow> Inl e
      | Listing es \<Rightarrow>
          (case map_of es name of
             None \<Rightarrow> Inr (Listing (es @ [(name, \<lparr>content = Some text, mtimeNs = now\<rparr>)]))
           | Some n \<Rightarrow>
               if content n = None then Inl EISDIR
               else Inr (Listing (AList.update name \<lparr>content = Some text, mtimeNs = now\<rparr> es))))"

definition unlinkSync :: "fs \<Rightarrow> string \<Rightarrow> fs_error + fs" where
  "unlinkSync fs name =
     (case fs of
        Absent \<Rightarrow> Inl ENOENT
      | Unlistable e \<Rightarrow> Inl e
      | Listing es \<Rightarrow>
          (case map_of es name of
             None \<Rightarrow> Inl ENOENT
           | Some n \<Rightarrow>
               if content n = None then Inl EISDIR
               else Inr (Listing (AList.delete name es))))"

subsection \<open>Sorting\<close>

text \<open>
  \<^verbatim>\<open>Array.prototype.sort\<close> with a comparator is a stable sort: it is modelled as
  the insertion sort that keeps elements which compare equal in their order. The
  comparator of the merger is \<^verbatim>\<open>a.mtime.getTime() - b.mtime.getTime()\<close>, a
  difference of whole milliseconds.
\<close>

fun insertBy :: "('a \<Rightarrow> 'a \<Rightarrow> int) \<Rightarrow> 'a \<Rightarrow> 'a list \<Rightarrow> 'a list" where
  "insertBy cmp x [] = [x]"
| "insertBy cmp x (y # ys) =
     (if cmp x y \<le> 0 then x # y # ys else y # insertBy cmp x ys)"

definition sortBy :: "('a \<Rightarrow> 'a \<Rightarrow> int) \<Rightarrow> 'a list \<Rightarrow> 'a list" where
  "sortBy cmp xs = foldr (insertBy cmp) xs []"

subsection \<open>The merge\<close>

text \<open>
  An element of \<^verbatim>\<open>parsedChangesets\<close>: the parsed fields and the \<^verbatim>\<open>file\<close> name
  (\<open>fileName\<close>; the entry it names is \<^verbatim>\<open>filePath\<close>).
\<close>

record changeset = parsed +
  fileName :: string

definition byMtime :: "changeset \<Rightarrow> changeset \<Rightarrow> int" where
  "byMtime a b = mtime a - mtime b"

fun parseAll :: "fs \<Rightarrow> string list \<Rightarrow> changeset list" where
  "parseAll fs [] = []"
| "parseAll fs (f # files) =
     (case parseChangeset fs f of
        None \<Rightarrow> parseAll fs files
      | Some p \<Rightarrow>
          \<lparr>type = type p, description = description p, mtime = mtime p, fileName = f\<rparr>
            # parseAll fs files)"

text \<open>\<^verbatim>\<open>createMergedChangeset\<close>\<close>

definition createMergedChangeset :: "string \<Rightarrow> string list \<Rightarrow> string" where
  "createMergedChangeset t descriptions =
     (let combinedDescription = join ''\<newline>\<newline>'' descriptions in
      ''---\<newline>'' @ [CHR 0x27] @ PACKAGE_NAME @ [CHR 0x27] @ '': '' @ t
        @ ''\<newline>---\<newline>\<newline>'' @ combinedDescription @ ''\<newline>'')"

text \<open>
  The loop that removes the originals: the names removed, or the error of the
  \<^verbatim>\<open>unlinkSync\<close> that throws, with the directory as it is then.
\<close>

fun removeOriginals :: "fs \<Rightarrow> changeset list \<Rightarrow> (fs_error + string list) \<times> fs" where
  "removeOriginals fs [] = (Inr [], fs)"
| "removeOriginals fs (c # cs) =
     (case unlinkSync fs (fileName c) of
        Inl e \<Rightarrow> (Inl e, fs)
      | Inr fs1 \<Rightarrow>
          (case removeOriginals fs1 cs of
             (Inl e, fs2) \<Rightarrow> (Inl e, fs2)
           | (Inr removed, fs2) \<Rightarrow> (Inr (fileName c # removed), fs2)))"

text \<open>
  \<^verbatim>\<open>main\<close> of \<^verbatim>\<open>merge-changesets.mjs\<close>, with the two random indices and the
  time of the write (in nanoseconds) as arguments. It returns what the run reports and the directory
  it leaves. An exception that escapes \<^verbatim>\<open>main\<close> is \<open>MergeCrashed\<close>.
\<close>

record merge_report =
  mergedFileName :: string
  highestBumpType :: string
  descriptions :: "string list"
  mergedContent :: string
  removed :: "string list"

datatype merge_outcome =
    NoMergeNeeded
  | NoValidChangesets
  | Merged merge_report
  | MergeCrashed fs_error

definition sortedChangesets :: "fs \<Rightarrow> string list \<Rightarrow> changeset list" where
  "sortedChangesets fs changesetFiles = sortBy byMtime (parseAll fs changesetFiles)"

definition descriptionsOf :: "changeset list \<Rightarrow> string list" where
  "descriptionsOf parsedChangesets =
     map description (filter (\<lambda>c. description c \<noteq> []) parsedChangesets)"

definition main :: "nat \<times> nat \<Rightarrow> int \<Rightarrow> fs \<Rightarrow> merge_outcome \<times> fs" where
  "main rnd now fs =
     (case readdirSync fs of
        Inl e \<Rightarrow> (MergeCrashed e, fs)
      | Inr names \<Rightarrow>
          let changesetFiles = filter isChangesetFile names in
          if length changesetFiles \<le> 1 then (NoMergeNeeded, fs)
          else if parseAll fs changesetFiles = [] then (NoValidChangesets, fs)
          else
            let parsedChangesets = sortedChangesets fs changesetFiles;
                bumpTypes = map type parsedChangesets;
                highest = getHighestBumpType bumpTypes;
                descs = descriptionsOf parsedChangesets;
                merged = createMergedChangeset highest descs;
                mergedName = ''merged-'' @ generateChangesetName rnd @ ''.md''
            in
              (case writeFileSync fs mergedName merged now of
                 Inl e \<Rightarrow> (MergeCrashed e, fs)
               | Inr fs1 \<Rightarrow>
                   (case removeOriginals fs1 parsedChangesets of
                      (Inl e, fs2) \<Rightarrow> (MergeCrashed e, fs2)
                    | (Inr names, fs2) \<Rightarrow>
                        (Merged \<lparr>mergedFileName = mergedName, highestBumpType = highest,
                                 descriptions = descs, mergedContent = merged,
                                 removed = names\<rparr>, fs2))))"

section \<open>Notions used in the statements\<close>

text \<open>
  What the fallback of the detector comes to, written on the directory itself: the
  names that end in \<^verbatim>\<open>.md\<close> and are not \<^verbatim>\<open>README.md\<close>, in enumeration order;
  no name when the directory is absent; the error of the listing when the path
  exists and cannot be listed.
\<close>

definition directorySnapshot :: "fs \<Rightarrow> fs_error + string list" where
  "directorySnapshot fs =
     (case fs of
        Absent \<Rightarrow> Inr []
      | Unlistable e \<Rightarrow> Inl e
      | Listing es \<Rightarrow> Inr (filter isChangesetFile (map fst es)))"

text \<open>
  The two git strategies as \<^verbatim>\<open>getAddedChangesetFiles\<close> runs them: the list a
  strategy produced, if any, and the repository state after it.
\<close>

definition explicitStage :: "env \<Rightarrow> 'g git \<Rightarrow> 'g \<Rightarrow> string list option \<times> 'g" where
  "explicitStage env git g =
     (case explicitShas env of
        Some (baseSha, headSha) \<Rightarrow> tryExplicitShaComparison git g baseSha headSha
      | None \<Rightarrow> (None, g))"

definition branchStage :: "env \<Rightarrow> 'g git \<Rightarrow> 'g \<Rightarrow> string list option \<times> 'g" where
  "branchStage env git g =
     (case baseRef env of
        Some prBase \<Rightarrow> tryBaseBranchComparison git g prBase
      | None \<Rightarrow> (None, g))"

text \<open>The element that the parsing loop pushes for a file that parses.\<close>

definition recordOf :: "fs \<Rightarrow> string \<Rightarrow> changeset" where
  "recordOf fs f =
     (let p = the (parseChangeset fs f)
      in \<lparr>type = type p, description = description p, mtime = mtime p, fileName = f\<rparr>)"

text \<open>
  The parser as the specification words it, to compare the validator with. The
  bump type is extracted from a declaration of the expected package name, quotes
  around the name optional, with one of the three literals; the text must split on
  \<^verbatim>\<open>---\<close> into at least three segments, else the description is missing; the
  description is the segments from the third on, rejoined with the delimiter and
  trimmed, and it must not be empty.
\<close>

datatype parse_failure = NoBumpDeclaration | NoDescriptionSegment | BlankDescription

definition parseSpec :: "string \<Rightarrow> string \<Rightarrow> parse_failure + string \<times> string" where
  "parseSpec expectedPackageName text =
     (case versionTypeMatch expectedPackageName True text of
        None \<Rightarrow> Inl NoBumpDeclaration
      | Some bumpType \<Rightarrow>
          if length (split ''---'' text) < 3 then Inl NoDescriptionSegment
          else if trim (join ''---'' (drop 2 (split ''---'' text))) = []
          then Inl BlankDescription
          else Inr (bumpType, trim (join ''---'' (drop 2 (split ''---'' text)))))"

text \<open>The reason the validator gives for each failure of the parse.\<close>

fun reasonOf :: "parse_failure \<Rightarrow> validation_error" where
  "reasonOf NoBumpDeclaration = MissingVersionType"
| "reasonOf NoDescriptionSegment = MissingDescription"
| "reasonOf BlankDescription = EmptyDescription"

section \<open>Sample inputs\<close>

text \<open>
  A changeset in the format the test suite of the changeset scripts writes
  (its \<^verbatim>\<open>createChangeset\<close>).
\<close>

definition changesetText :: "string \<Rightarrow> string \<Rightarrow> string" where
  "changesetText t d =
     ''---\<newline>'' @ [CHR 0x27] @ ''my-package'' @ [CHR 0x27] @ '': '' @ t
       @ ''\<newline>---\<newline>\<newline>'' @ d @ ''\<newline>''"

text \<open>The same changeset with the package name left unquoted.\<close>

definition unquotedChangeset :: string where
  "unquotedChangeset = ''---\<newline>my-package: patch\<newline>---\<newline>\<newline>Fix typo\<newline>''"

definition unquotedDir :: fs where
  "unquotedDir = Listing [(''a.md'', \<lparr>content = Some unquotedChangeset, mtimeNs = 1000000\<rparr>)]"

text \<open>A file that holds the declaration and nothing else.\<close>

definition bareDeclaration :: string where
  "bareDeclaration = [CHR 0x27] @ ''my-package'' @ [CHR 0x27] @ '': minor''"

definition bareDir :: fs where
  "bareDir = Listing [(''a.md'', \<lparr>content = Some bareDeclaration, mtimeNs = 1000000\<rparr>)]"

text \<open>The directory of the first scenario: two changesets, enumerated newest first.\<close>

definition twoChangesets :: fs where
  "twoChangesets = Listing
     [(''README.md'', \<lparr>content = Some ''# Changesets'', mtimeNs = 0\<rparr>),
      (''b.md'', \<lparr>content = Some (changesetText ''minor'' ''Add feature''), mtimeNs = 2000000\<rparr>),
      (''a.md'', \<lparr>content = Some (changesetText ''patch'' ''Fix typo''), mtimeNs = 1000000\<rparr>)]"

definition singletonDir :: fs where
  "singletonDir = Listing
     [(''README.md'', \<lparr>content = Some ''# Changesets'', mtimeNs = 0\<rparr>),
      (''config.json'', \<lparr>content = Some ''{}'', mtimeNs = 0\<rparr>),
      (''only-change.md'', \<lparr>content = Some (changesetText ''patch'' ''Only change''),
         mtimeNs = 5000000\<rparr>)]"

definition emptyDescriptionDir :: fs where
  "emptyDescriptionDir = Listing
     [(''a.md'', \<lparr>content = Some (changesetText ''patch'' ''Fix typo''), mtimeNs = 1000000\<rparr>),
      (''b.md'', \<lparr>content = Some bareDeclaration, mtimeNs = 2000000\<rparr>)]"

text \<open>Directories that already hold a file named like a merged changeset.\<close>

definition overwriteDir :: fs where
  "overwriteDir = Listing
     [(''merged-bright-apple.md'',
       \<lparr>content = Some ''# Notes for the next release'', mtimeNs = 1000000\<rparr>),
      (''a.md'', \<lparr>content = Some (changesetText ''patch'' ''Fix typo''), mtimeNs = 2000000\<rparr>),
      (''b.md'', \<lparr>content = Some (changesetText ''minor'' ''Add feature''), mtimeNs = 3000000\<rparr>)]"

definition remergeDir :: fs where
  "remergeDir = Listing
     [(''merged-bright-apple.md'',
       \<lparr>content = Some (changesetText ''minor'' ''Add feature''), mtimeNs = 1000000\<rparr>),
      (''a.md'', \<lparr>content = Some (changesetText ''patch'' ''Fix typo''), mtimeNs = 2000000\<rparr>)]"

text \<open>Two changesets written in the same millisecond.\<close>

definition sameTimeEntries :: "(string \<times> node) list" where
  "sameTimeEntries =
     [(''first.md'', \<lparr>content = Some (changesetText ''patch'' ''First''), mtimeNs = 5000000\<rparr>),
      (''second.md'', \<lparr>content = Some (changesetText ''patch'' ''Second''), mtimeNs = 5000000\<rparr>)]"

text \<open>A directory in which the only name that ends in \<^verbatim>\<open>.md\<close> is a subdirectory.\<close>

definition subdirectoryDir :: fs where
  "subdirectoryDir = Listing [(''notes.md'', \<lparr>content = None, mtimeNs = 1000000\<rparr>)]"

text \<open>
  Two changesets written 0.2 milliseconds apart, at 5000.1 ms and 5000.3 ms, the
  newer one enumerated first.
\<close>

definition closeTimesDir :: fs where
  "closeTimesDir = Listing
     [(''newer.md'', \<lparr>content = Some (changesetText ''patch'' ''Newer''),
         mtimeNs = 5000300000\<rparr>),
      (''older.md'', \<lparr>content = Some (changesetText ''patch'' ''Older''),
         mtimeNs = 5000100000\<rparr>)]"

text \<open>Environments and a repository in which every git command fails.\<close>

definition noEnv :: env where
  "noEnv = (\<lambda>v. None)"

definition ciEnv :: env where
  "ciEnv = (\<lambda>v. if v = ''GITHUB_BASE_SHA'' then Some ''1111''
                 else if v = ''GITHUB_HEAD_SHA'' then Some ''2222''
                 else if v = ''GITHUB_BASE_REF'' then Some ''main''
                 else None)"

definition brokenGit :: "unit git" where
  "brokenGit = \<lparr>catFile = (\<lambda>g sha. False), fetchRef = (\<lambda>g r. (False, g)),
     fetchOrigin = (\<lambda>g. (False, g)), diffShas = (\<lambda>g b h. None),
     diffBranch = (\<lambda>g b. None)\<rparr>"

text \<open>The records of the two changesets of \<open>twoChangesets\<close>.\<close>

definition recA :: changeset where
  "recA = \<lparr>type = ''patch'', description = ''Fix typo'', mtime = 1, fileName = ''a.md''\<rparr>"

definition recB :: changeset where
  "recB = \<lparr>type = ''minor'', description = ''Add feature'', mtime = 2, fileName = ''b.md''\<rparr>"

section \<open>Unfolding the model on concrete inputs\<close>

lemmas matcher_defs =
  versionTypeMatch_def matchHere_def quoteAlts_def isQuote_def afterName_def
  afterColon_def bumpLiteral_def isLineTerminator_def isWhiteSpace_def PACKAGE_NAME_def

lemmas fs_read_defs = readFileSync_def statSync_def lookupNode_def dateFromNs_def

lemmas merge_defs =
  main_def readdirSync_def isChangesetFile_def endsWith_def parseChangeset_def
  split_def trim_def sortedChangesets_def sortBy_def byMtime_def getHighestBumpType_def
  BUMP_PRIORITY_def gtNumber_def descriptionsOf_def createMergedChangeset_def
  generateChangesetName_def elementAt_def adjectives_def nouns_def writeFileSync_def
  unlinkSync_def Let_def

section \<open>Properties of the bump priority\<close>

lemma highestFrom_valid:
  "h \<in> {''patch'', ''minor'', ''major''} \<Longrightarrow>
   highestFrom h ts =
     (if h = ''major'' \<or> ''major'' \<in> set ts then ''major''
      else if h = ''minor'' \<or> ''minor'' \<in> set ts then ''minor''
      else ''patch'')"
proof (induction ts arbitrary: h)
  case Nil
  then show ?case by auto
next
  case (Cons t ts)
  let ?h = "if gtNumber (BUMP_PRIORITY t) (BUMP_PRIORITY h) then t else h"
  have valid: "?h \<in> {''patch'', ''minor'', ''major''}"
    using Cons.prems by (auto simp: gtNumber_def BUMP_PRIORITY_def split: if_splits)
  have step: "highestFrom h (t # ts) = highestFrom ?h ts"
    by simp
  show ?case
    unfolding step Cons.IH [OF valid]
    using Cons.prems by (auto simp: gtNumber_def BUMP_PRIORITY_def split: if_splits)
qed

lemma getHighestBumpType_char:
  "getHighestBumpType types =
     (if ''major'' \<in> set types then ''major''
      else if ''minor'' \<in> set types then ''minor''
      else ''patch'')"
  by (simp add: getHighestBumpType_def highestFrom_valid)

text \<open>
  C5. On every sequence of types \<^verbatim>\<open>getHighestBumpType\<close> returns \<^verbatim>\<open>major\<close> when
  \<^verbatim>\<open>major\<close> occurs, else \<^verbatim>\<open>minor\<close> when \<^verbatim>\<open>minor\<close> occurs, else \<^verbatim>\<open>patch\<close>.
  Two sequences with the same multiset of elements have the same result, the
  result of a concatenation is the result of the two partial results, and the
  empty sequence gives \<^verbatim>\<open>patch\<close>. A type outside the three literals is passed
  over, so the statement needs no assumption on the elements.
\<close>

theorem highest_bump_type_resolved:
  "getHighestBumpType types =
     (if ''major'' \<in> set types then ''major''
      else if ''minor'' \<in> set types then ''minor''
      else ''patch'')
   \<and> (mset types' = mset types \<longrightarrow> getHighestBumpType types' = getHighestBumpType types)
   \<and> getHighestBumpType (xs @ ys)
       = getHighestBumpType [getHighestBumpType xs, getHighestBumpType ys]
   \<and> getHighestBumpType [] = ''patch''"
proof -
  have perm: "getHighestBumpType types' = getHighestBumpType types"
    if "mset types' = mset types"
  proof -
    from that have "set types' = set types" by (rule mset_eq_setD)
    then show ?thesis by (simp add: getHighestBumpType_char)
  qed
  have assoc: "getHighestBumpType (xs @ ys)
      = getHighestBumpType [getHighestBumpType xs, getHighestBumpType ys]"
    by (simp add: getHighestBumpType_char)
  show ?thesis using perm assoc by (simp add: getHighestBumpType_char)
qed

theorem highest_bump_type_resolved_witness:
  "mset [''minor'', ''major'', ''patch''] = mset [''patch'', ''minor'', ''major'']
   \<and> getHighestBumpType [''patch'', ''minor'', ''major''] = ''major''
   \<and> getHighestBumpType [''minor'', ''major'', ''patch''] = ''major''"
  using highest_bump_type_resolved
    [of "[''patch'', ''minor'', ''major'']" "[''minor'', ''major'', ''patch'']" "[]" "[]"]
  by simp


section \<open>The validator\<close>

text \<open>
  Wherever the pattern of the validator matches, the pattern with optional quotes
  matches too, with the same capture; so a text in which the validator finds a
  version type has a declaration in the sense of \<open>parseSpec\<close>.
\<close>

lemma matchHere_optional:
  assumes "matchHere pkg False s = Some t"
  shows "matchHere pkg True s = Some t"
proof -
  from assms obtain q rest where s: "s = q # rest" and q: "isQuote q"
    and n: "afterName pkg False rest = Some t"
    by (cases s) (auto simp: matchHere_def quoteAlts_def split: if_splits option.splits)
  from n have p: "prefix pkg rest"
    and c: "firstSome afterColon (quoteAlts False (drop (length pkg) rest)) = Some t"
    by (auto simp: afterName_def split: if_splits)
  from c obtain q' r where r: "drop (length pkg) rest = q' # r" and q': "isQuote q'"
    and a: "afterColon r = Some t"
    by (cases "drop (length pkg) rest")
       (auto simp: quoteAlts_def split: if_splits option.splits)
  from p r q' a have "afterName pkg True rest = Some t"
    by (simp add: afterName_def quoteAlts_def)
  with s q show ?thesis
    by (simp add: matchHere_def quoteAlts_def)
qed

lemma scanLines_optional:
  assumes "scanLines (matchHere pkg False) b s = Some t"
  shows "\<exists>t'. scanLines (matchHere pkg True) b s = Some t'"
  using assms
proof (induction s arbitrary: b)
  case Nil
  then show ?case by (auto dest: matchHere_optional split: if_splits)
next
  case (Cons c cs)
  show ?case
  proof (cases "b \<and> matchHere pkg False (c # cs) \<noteq> None")
    case True
    then obtain u where "matchHere pkg False (c # cs) = Some u" by auto
    then have "matchHere pkg True (c # cs) = Some u" by (rule matchHere_optional)
    with True show ?thesis by simp
  next
    case False
    with Cons.prems have "scanLines (matchHere pkg False) (isLineTerminator c) cs = Some t"
      by (auto split: if_splits option.splits)
    from Cons.IH [OF this] obtain t'
      where "scanLines (matchHere pkg True) (isLineTerminator c) cs = Some t'" ..
    then show ?thesis by (auto split: option.splits)
  qed
qed

lemma versionTypeMatch_optional:
  "versionTypeMatch pkg False text = Some t \<Longrightarrow> \<exists>t'. versionTypeMatch pkg True text = Some t'"
  unfolding versionTypeMatch_def by (rule scanLines_optional)

text \<open>
  C1, at a directory whose only \<^verbatim>\<open>.md\<close> entry is a subdirectory, the name the
  fallback of the detector hands to the validator. Exactly one file is given and
  it does not parse, but the validator fails with none of the three reasons of the
  parse: the reason is that the file could not be read.
\<close>

theorem unreadable_file_fails_with_read_error:
  "getAddedChangesetFiles noEnv brokenGit () subdirectoryDir = Inr [''notes.md'']
   \<and> readFileSync subdirectoryDir ''notes.md'' = Inl EISDIR
   \<and> validate subdirectoryDir [''notes.md''] = InvalidChangeset (ReadFailed EISDIR)
   \<and> ReadFailed EISDIR \<noteq> MissingVersionType
   \<and> ReadFailed EISDIR \<noteq> MissingDescription
   \<and> ReadFailed EISDIR \<noteq> EmptyDescription"
  by (simp add: getAddedChangesetFiles_def explicitShas_def baseRef_def noEnv_def orElse_def
      truthy_def getAllChangesets_def existsSync_def readdirSync_def subdirectoryDir_def
      isChangesetFile_def endsWith_def validate_def validateChangesetFile_def
      readFileSync_def lookupNode_def)

text \<open>
  C1, as the code has it. With no added file the validator fails with
  \<open>MissingChangeset\<close>, with two or more it fails with \<open>TooManyChangesets\<close>, which
  carries every added file. With exactly one added file:
  \<^item> when the file cannot be read, the validator fails, and the reason is the
    failure to read;
  \<^item> when the file is read and quoting is not at issue, that is the pattern of the
    validator and the pattern with optional quotes extract the same type or both
    none, the validator passes exactly when the text parses in the sense of
    \<open>parseSpec\<close>, reporting the type and the description, and otherwise fails with
    the reason of the parse: the missing declaration, the missing description
    segment or the empty description;
  \<^item> a text without any declaration is rejected for the missing version type.

  In every case a pass means that exactly one file was added, that it was read and
  that its text parses, with the description reported. What the validator does
  with a text on which the two patterns differ is not part of the statement.
\<close>

theorem validate_exactly_one:
  "(files = [] \<longrightarrow> validate fs files = MissingChangeset)
   \<and> (2 \<le> length files \<longrightarrow> validate fs files = TooManyChangesets files)
   \<and> (\<forall>f e. files = [f] \<and> readFileSync fs f = Inl e
         \<longrightarrow> validate fs files = InvalidChangeset (ReadFailed e))
   \<and> (\<forall>f text. files = [f] \<and> readFileSync fs f = Inr text
           \<and> versionTypeMatch PACKAGE_NAME False text = versionTypeMatch PACKAGE_NAME True text
         \<longrightarrow> validate fs files =
               (case parseSpec PACKAGE_NAME text of
                  Inl r \<Rightarrow> InvalidChangeset (reasonOf r)
                | Inr (t, d) \<Rightarrow> Passed t d))
   \<and> (\<forall>f text. files = [f] \<and> readFileSync fs f = Inr text
           \<and> parseSpec PACKAGE_NAME text = Inl NoBumpDeclaration
         \<longrightarrow> validate fs files = InvalidChangeset MissingVersionType)
   \<and> (\<forall>t d. validate fs files = Passed t d
         \<longrightarrow> (\<exists>f text t'. files = [f] \<and> readFileSync fs f = Inr text
                \<and> parseSpec PACKAGE_NAME text = Inr (t', d)))"
proof -
  have none: "files = [] \<longrightarrow> validate fs files = MissingChangeset"
    by (simp add: validate_def)
  have many: "2 \<le> length files \<longrightarrow> validate fs files = TooManyChangesets files"
    by (auto simp: validate_def)
  have unread: "\<forall>f e. files = [f] \<and> readFileSync fs f = Inl e
      \<longrightarrow> validate fs files = InvalidChangeset (ReadFailed e)"
    by (simp add: validate_def validateChangesetFile_def)
  have agree: "\<forall>f text. files = [f] \<and> readFileSync fs f = Inr text
        \<and> versionTypeMatch PACKAGE_NAME False text = versionTypeMatch PACKAGE_NAME True text
      \<longrightarrow> validate fs files =
            (case parseSpec PACKAGE_NAME text of
               Inl r \<Rightarrow> InvalidChangeset (reasonOf r)
             | Inr (t, d) \<Rightarrow> Passed t d)"
    by (auto simp: validate_def validateChangesetFile_def parseSpec_def Let_def
        split: option.splits)
  have nodecl: "\<forall>f text. files = [f] \<and> readFileSync fs f = Inr text
        \<and> parseSpec PACKAGE_NAME text = Inl NoBumpDeclaration
      \<longrightarrow> validate fs files = InvalidChangeset MissingVersionType"
  proof (intro allI impI, elim conjE)
    fix f body
    assume f: "files = [f]" and r: "readFileSync fs f = Inr body"
      and p: "parseSpec PACKAGE_NAME body = Inl NoBumpDeclaration"
    from p have "versionTypeMatch PACKAGE_NAME True body = None"
      by (auto simp: parseSpec_def split: option.splits if_splits)
    with versionTypeMatch_optional [of PACKAGE_NAME body]
    have "versionTypeMatch PACKAGE_NAME False body = None"
      by (cases "versionTypeMatch PACKAGE_NAME False body") auto
    with f r show "validate fs files = InvalidChangeset MissingVersionType"
      by (simp add: validate_def validateChangesetFile_def)
  qed
  have pass: "\<forall>t d. validate fs files = Passed t d
      \<longrightarrow> (\<exists>f text t'. files = [f] \<and> readFileSync fs f = Inr text
             \<and> parseSpec PACKAGE_NAME text = Inr (t', d))"
  proof (intro allI impI)
    fix t d
    assume v: "validate fs files = Passed t d"
    then obtain f where f: "files = [f]"
      by (cases files; cases "tl files") (auto simp: validate_def split: if_splits)
    with v have ok: "validateChangesetFile fs f = Inr (t, d)"
      by (auto simp: validate_def split: sum.splits)
    then obtain body where r: "readFileSync fs f = Inr body"
      by (auto simp: validateChangesetFile_def split: sum.splits)
    with ok have m: "versionTypeMatch PACKAGE_NAME False body = Some t"
      and l: "\<not> length (split ''---'' body) < 3"
      and e: "trim (join ''---'' (drop 2 (split ''---'' body))) = d" and ne: "d \<noteq> []"
      by (auto simp: validateChangesetFile_def Let_def split: option.splits if_splits)
    from versionTypeMatch_optional [OF m] obtain t'
      where "versionTypeMatch PACKAGE_NAME True body = Some t'" ..
    with l e ne have "parseSpec PACKAGE_NAME body = Inr (t', d)"
      by (simp add: parseSpec_def)
    with f r show "\<exists>f text t'. files = [f] \<and> readFileSync fs f = Inr text
        \<and> parseSpec PACKAGE_NAME text = Inr (t', d)"
      by blast
  qed
  from none many unread agree nodecl pass show ?thesis
    by (intro conjI)
qed

lemma twoChangesets_reads:
  "readFileSync twoChangesets ''a.md'' = Inr (changesetText ''patch'' ''Fix typo'')
   \<and> readFileSync twoChangesets ''README.md'' = Inr ''# Changesets''"
  by (simp add: twoChangesets_def readFileSync_def lookupNode_def)

lemma sample_patterns_agree:
  "versionTypeMatch PACKAGE_NAME False (changesetText ''patch'' ''Fix typo'') = Some ''patch''
   \<and> versionTypeMatch PACKAGE_NAME True (changesetText ''patch'' ''Fix typo'') = Some ''patch''
   \<and> versionTypeMatch PACKAGE_NAME False ''# Changesets'' = None
   \<and> versionTypeMatch PACKAGE_NAME True ''# Changesets'' = None"
  by (simp add: changesetText_def matcher_defs)

lemma sample_parseSpec:
  "parseSpec PACKAGE_NAME (changesetText ''patch'' ''Fix typo'') = Inr (''patch'', ''Fix typo'')
   \<and> parseSpec PACKAGE_NAME ''# Changesets'' = Inl NoBumpDeclaration"
  by (simp add: parseSpec_def changesetText_def matcher_defs split_def trim_def)

theorem validate_exactly_one_witness:
  "validate twoChangesets [] = MissingChangeset
   \<and> validate twoChangesets [''b.md'', ''a.md''] = TooManyChangesets [''b.md'', ''a.md'']
   \<and> readFileSync subdirectoryDir ''notes.md'' = Inl EISDIR
   \<and> validate subdirectoryDir [''notes.md''] = InvalidChangeset (ReadFailed EISDIR)
   \<and> readFileSync twoChangesets ''a.md'' = Inr (changesetText ''patch'' ''Fix typo'')
   \<and> versionTypeMatch PACKAGE_NAME False (changesetText ''patch'' ''Fix typo'')
       = versionTypeMatch PACKAGE_NAME True (changesetText ''patch'' ''Fix typo'')
   \<and> validate twoChangesets [''a.md''] = Passed ''patch'' ''Fix typo''
   \<and> validate twoChangesets [''README.md''] = InvalidChangeset MissingVersionType"
proof -
  have u: "readFileSync subdirectoryDir ''notes.md'' = Inl EISDIR"
    by (simp add: subdirectoryDir_def readFileSync_def lookupNode_def)
  have ra: "readFileSync twoChangesets ''a.md'' = Inr (changesetText ''patch'' ''Fix typo'')"
    using twoChangesets_reads by (rule conjunct1)
  have rr: "readFileSync twoChangesets ''README.md'' = Inr ''# Changesets''"
    using twoChangesets_reads by (rule conjunct2)
  have ag: "versionTypeMatch PACKAGE_NAME False (changesetText ''patch'' ''Fix typo'')
      = versionTypeMatch PACKAGE_NAME True (changesetText ''patch'' ''Fix typo'')"
    using sample_patterns_agree by simp
  have ag': "versionTypeMatch PACKAGE_NAME False ''# Changesets''
      = versionTypeMatch PACKAGE_NAME True ''# Changesets''"
    using sample_patterns_agree by simp
  have none: "validate twoChangesets [] = MissingChangeset"
    using validate_exactly_one [of "[]" twoChangesets, THEN conjunct1] by simp
  have many: "validate twoChangesets [''b.md'', ''a.md'']
      = TooManyChangesets [''b.md'', ''a.md'']"
    using validate_exactly_one [of "[''b.md'', ''a.md'']" twoChangesets,
        THEN conjunct2, THEN conjunct1]
    by simp
  have unread: "validate subdirectoryDir [''notes.md''] = InvalidChangeset (ReadFailed EISDIR)"
    by (rule validate_exactly_one [of "[''notes.md'']" subdirectoryDir,
          THEN conjunct2, THEN conjunct2, THEN conjunct1, rule_format, of "''notes.md''"])
       (simp add: u)
  have "validate twoChangesets [''a.md'']
      = (case parseSpec PACKAGE_NAME (changesetText ''patch'' ''Fix typo'') of
           Inl r \<Rightarrow> InvalidChangeset (reasonOf r)
         | Inr (t, d) \<Rightarrow> Passed t d)"
    by (rule validate_exactly_one [of "[''a.md'']" twoChangesets,
          THEN conjunct2, THEN conjunct2, THEN conjunct2, THEN conjunct1, rule_format,
          of "''a.md''"])
       (simp add: ra ag)
  then have pass: "validate twoChangesets [''a.md''] = Passed ''patch'' ''Fix typo''"
    by (simp add: sample_parseSpec)
  have "validate twoChangesets [''README.md'']
      = (case parseSpec PACKAGE_NAME ''# Changesets'' of
           Inl r \<Rightarrow> InvalidChangeset (reasonOf r)
         | Inr (t, d) \<Rightarrow> Passed t d)"
    by (rule validate_exactly_one [of "[''README.md'']" twoChangesets,
          THEN conjunct2, THEN conjunct2, THEN conjunct2, THEN conjunct1, rule_format,
          of "''README.md''"])
       (simp add: rr ag')
  then have bad: "validate twoChangesets [''README.md''] = InvalidChangeset MissingVersionType"
    by (simp add: sample_parseSpec)
  from none many u unread ra ag pass bad show ?thesis
    by (intro conjI)
qed

section \<open>The two parsers\<close>

text \<open>
  A declaration line behind the opening delimiter: the pattern of the merger
  matches it with either quote or none on each side of the name, the pattern of
  the validator with a quote on both sides, and the pattern of the validator does
  not match a line that begins with the bare name.
\<close>

lemma afterColon_declaration:
  assumes "ws \<noteq> []" and "\<forall>c \<in> set ws. isWhiteSpace c"
    and "b \<in> {''major'', ''minor'', ''patch''}"
  shows "afterColon ('':'' @ ws @ b @ rest) = Some b"
proof -
  from assms(2) have t: "takeWhile isWhiteSpace (ws @ b @ rest) = ws @ takeWhile isWhiteSpace (b @ rest)"
    by (simp add: takeWhile_append2)
  from assms(2) have "dropWhile isWhiteSpace (ws @ b @ rest) = dropWhile isWhiteSpace (b @ rest)"
    by (simp add: dropWhile_append2)
  also from assms(3) have "\<dots> = b @ rest"
    by (auto simp: isWhiteSpace_def)
  finally have d: "dropWhile isWhiteSpace (ws @ b @ rest) = b @ rest" .
  from assms(3) have "bumpLiteral (b @ rest) = Some b"
    by (auto simp: bumpLiteral_def)
  with t d assms(1) show ?thesis
    by (simp add: afterColon_def)
qed

lemma scanLines_here: "m s = Some r \<Longrightarrow> scanLines m True s = Some r"
  by (cases s) simp_all

lemma merger_pattern_accepts:
  assumes "q \<in> {[], [CHR 0x27], [CHR 0x22]}" and "q' \<in> {[], [CHR 0x27], [CHR 0x22]}"
    and "ws \<noteq> []" and "\<forall>c \<in> set ws. isWhiteSpace c"
    and "b \<in> {''major'', ''minor'', ''patch''}"
  shows "versionTypeMatch PACKAGE_NAME True
           (''---\<newline>'' @ q @ PACKAGE_NAME @ q' @ '':'' @ ws @ b @ rest) = Some b"
proof -
  note c = afterColon_declaration [OF assms(3,4,5), of rest]
  have n: "afterName PACKAGE_NAME True (PACKAGE_NAME @ q' @ '':'' @ ws @ b @ rest) = Some b"
    using assms(2) c by (auto simp: afterName_def quoteAlts_def isQuote_def)
  have h: "matchHere PACKAGE_NAME True (q @ PACKAGE_NAME @ q' @ '':'' @ ws @ b @ rest) = Some b"
    using assms(1) n by (auto simp: matchHere_def quoteAlts_def isQuote_def PACKAGE_NAME_def)
  have "matchHere PACKAGE_NAME True (''---\<newline>'' @ s) = None" for s
    by (simp add: matchHere_def quoteAlts_def isQuote_def afterName_def PACKAGE_NAME_def)
  with scanLines_here [of "matchHere PACKAGE_NAME True", OF h] show ?thesis
    by (simp add: versionTypeMatch_def isLineTerminator_def)
qed

lemma validator_pattern_accepts_quoted:
  assumes "q \<in> {[CHR 0x27], [CHR 0x22]}" and "q' \<in> {[CHR 0x27], [CHR 0x22]}"
    and "ws \<noteq> []" and "\<forall>c \<in> set ws. isWhiteSpace c"
    and "b \<in> {''major'', ''minor'', ''patch''}"
  shows "versionTypeMatch PACKAGE_NAME False
           (''---\<newline>'' @ q @ PACKAGE_NAME @ q' @ '':'' @ ws @ b @ rest) = Some b"
proof -
  note c = afterColon_declaration [OF assms(3,4,5), of rest]
  have n: "afterName PACKAGE_NAME False (PACKAGE_NAME @ q' @ '':'' @ ws @ b @ rest) = Some b"
    using assms(2) c by (auto simp: afterName_def quoteAlts_def isQuote_def)
  have h: "matchHere PACKAGE_NAME False (q @ PACKAGE_NAME @ q' @ '':'' @ ws @ b @ rest) = Some b"
    using assms(1) n by (auto simp: matchHere_def quoteAlts_def isQuote_def)
  have "matchHere PACKAGE_NAME False (''---\<newline>'' @ s) = None" for s
    by (simp add: matchHere_def quoteAlts_def isQuote_def)
  with scanLines_here [of "matchHere PACKAGE_NAME False", OF h] show ?thesis
    by (simp add: versionTypeMatch_def isLineTerminator_def)
qed

lemma validator_pattern_needs_quote:
  "matchHere PACKAGE_NAME False (PACKAGE_NAME @ s) = None"
  by (simp add: matchHere_def quoteAlts_def isQuote_def PACKAGE_NAME_def)

text \<open>
  C2. The two parsers disagree on a changeset whose package name is not quoted:
  the pattern of the merger makes each quote optional and extracts the type, the
  pattern of the validator requires both quotes and reports that the version type
  is missing.
\<close>

theorem validator_rejects_unquoted_name:
  "validateChangesetFile unquotedDir ''a.md'' = Inl MissingVersionType
   \<and> parseChangeset unquotedDir ''a.md''
       = Some \<lparr>type = ''patch'', description = ''Fix typo'', mtime = 1\<rparr>"
  by (simp add: validateChangesetFile_def parseChangeset_def unquotedDir_def
      unquotedChangeset_def fs_read_defs matcher_defs split_def trim_def)

text \<open>
  C3, at a file that holds the declaration and nothing else. The text has fewer
  than three segments and its declaration matches; the merger's parser does not
  fail on it: it returns a record, with the empty description.
\<close>

theorem merger_parses_without_description:
  "length (split ''---'' bareDeclaration) < 3
   \<and> readFileSync bareDir ''a.md'' = Inr bareDeclaration
   \<and> parseChangeset bareDir ''a.md''
       = Some \<lparr>type = ''minor'', description = [], mtime = 1\<rparr>"
  by (simp add: parseChangeset_def bareDir_def bareDeclaration_def fs_read_defs matcher_defs
      split_def trim_def)

text \<open>
  C3, as the code has it. For a text that splits on \<^verbatim>\<open>---\<close> into fewer than three
  segments, the validator's parser fails: with the missing description when the
  version type matched, with the missing version type otherwise. The merger's
  parser returns \<^verbatim>\<open>null\<close> only when the version type does not match; when it
  matches, the result is the record with that type and the empty description.
\<close>

theorem fewer_than_three_segments:
  assumes "readFileSync fs name = Inr text" and "length (split ''---'' text) < 3"
  shows "validateChangesetFile fs name =
           (case versionTypeMatch PACKAGE_NAME False text of
              None \<Rightarrow> Inl MissingVersionType
            | Some t \<Rightarrow> Inl MissingDescription)
         \<and> (\<forall>m. statSync fs name = Inr m \<longrightarrow>
              parseChangeset fs name =
                (case versionTypeMatch PACKAGE_NAME True text of
                   None \<Rightarrow> None
                 | Some t \<Rightarrow> Some \<lparr>type = t, description = [], mtime = m\<rparr>))"
  using assms
  by (simp add: validateChangesetFile_def parseChangeset_def Let_def split: option.splits)

theorem fewer_than_three_segments_witness:
  "readFileSync bareDir ''a.md'' = Inr bareDeclaration
   \<and> length (split ''---'' bareDeclaration) < 3
   \<and> validateChangesetFile bareDir ''a.md'' = Inl MissingDescription
   \<and> statSync bareDir ''a.md'' = Inr 1"
proof -
  have r: "readFileSync bareDir ''a.md'' = Inr bareDeclaration"
    by (simp add: bareDir_def fs_read_defs)
  have l: "length (split ''---'' bareDeclaration) < 3"
    by (simp add: bareDeclaration_def split_def)
  have v: "versionTypeMatch PACKAGE_NAME False bareDeclaration = Some ''minor''"
    by (simp add: bareDeclaration_def matcher_defs)
  have s: "statSync bareDir ''a.md'' = Inr 1"
    by (simp add: bareDir_def fs_read_defs)
  from fewer_than_three_segments [OF r l] v r l s show ?thesis by simp
qed

section \<open>The detector\<close>

lemma getAllChangesets_snapshot: "getAllChangesets fs = directorySnapshot fs"
  by (cases fs)
    (simp_all add: getAllChangesets_def existsSync_def readdirSync_def directorySnapshot_def)

lemma getAddedChangesetFiles_stages:
  "getAddedChangesetFiles env git g fs =
     (case fst (explicitStage env git g) of
        Some result \<Rightarrow> Inr result
      | None \<Rightarrow>
          (case fst (branchStage env git (snd (explicitStage env git g))) of
             Some result \<Rightarrow> Inr result
           | None \<Rightarrow> directorySnapshot fs))"
  unfolding getAddedChangesetFiles_def explicitStage_def [symmetric] branchStage_def [symmetric]
  by (cases "explicitStage env git g";
      cases "branchStage env git (snd (explicitStage env git g))")
     (auto simp: getAllChangesets_snapshot split: option.splits)

text \<open>
  C9, at a path \<^verbatim>\<open>.changeset\<close> that exists and is a plain file, with no revision
  context in the environment. \<^verbatim>\<open>existsSync\<close> holds, \<^verbatim>\<open>readdirSync\<close> throws, and
  nothing in \<^verbatim>\<open>getAllChangesets\<close> or \<^verbatim>\<open>getAddedChangesetFiles\<close> catches it: the
  detector ends with the error and no list, and the script exits through its
  outer \<^verbatim>\<open>catch\<close>.
\<close>

theorem detector_raises_on_unlistable_directory:
  "explicitShas noEnv = None \<and> baseRef noEnv = None
   \<and> existsSync (Unlistable ENOTDIR)
   \<and> getAddedChangesetFiles noEnv brokenGit () (Unlistable ENOTDIR) = Inl ENOTDIR
   \<and> validateMain noEnv brokenGit () (Unlistable ENOTDIR) = ValidationCrashed ENOTDIR"
  by (simp add: validateMain_def getAddedChangesetFiles_def explicitShas_def baseRef_def
      noEnv_def orElse_def truthy_def getAllChangesets_def existsSync_def readdirSync_def)

text \<open>
  C9, as the code has it. When the environment gives neither a pair of revisions
  nor a base branch, and also when each git strategy that is tried produces no
  list, the detector comes to the snapshot of the directory: the empty list when
  the directory is absent, the names that end in \<^verbatim>\<open>.md\<close> and are not
  \<^verbatim>\<open>README.md\<close> when it can be listed, both without an error, and the error of
  \<^verbatim>\<open>readdirSync\<close> when the path exists and cannot be listed. The detector ends with
  an error in that last case only: the fallback is reached and the path cannot be
  listed. In every other case it ends with a list.
\<close>

theorem detector_falls_back_to_snapshot:
  "(explicitShas env = None \<and> baseRef env = None
      \<longrightarrow> getAddedChangesetFiles env git g fs = directorySnapshot fs)
   \<and> (fst (explicitStage env git g) = None
       \<and> fst (branchStage env git (snd (explicitStage env git g))) = None
      \<longrightarrow> getAddedChangesetFiles env git g fs = directorySnapshot fs)
   \<and> directorySnapshot Absent = Inr []
   \<and> (\<forall>es. directorySnapshot (Listing es)
         = Inr (filter (\<lambda>file. endsWith file ''.md'' \<and> file \<noteq> ''README.md'') (map fst es)))
   \<and> (\<forall>e. directorySnapshot (Unlistable e) = Inl e)
   \<and> (\<forall>e. getAddedChangesetFiles env git g fs = Inl e
         \<longleftrightarrow> fst (explicitStage env git g) = None
             \<and> fst (branchStage env git (snd (explicitStage env git g))) = None
             \<and> fs = Unlistable e)
   \<and> ((\<forall>e. fs \<noteq> Unlistable e) \<longrightarrow> (\<exists>files. getAddedChangesetFiles env git g fs = Inr files))"
proof -
  have a: "explicitShas env = None \<and> baseRef env = None
      \<longrightarrow> getAddedChangesetFiles env git g fs = directorySnapshot fs"
    by (simp add: getAddedChangesetFiles_stages explicitStage_def branchStage_def)
  have b: "fst (explicitStage env git g) = None
       \<and> fst (branchStage env git (snd (explicitStage env git g))) = None
      \<longrightarrow> getAddedChangesetFiles env git g fs = directorySnapshot fs"
    by (simp add: getAddedChangesetFiles_stages)
  have c: "directorySnapshot Absent = Inr []"
    by (simp add: directorySnapshot_def)
  have d: "\<forall>es. directorySnapshot (Listing es)
         = Inr (filter (\<lambda>file. endsWith file ''.md'' \<and> file \<noteq> ''README.md'') (map fst es))"
    by (simp add: directorySnapshot_def isChangesetFile_def [abs_def])
  have e: "\<forall>e. directorySnapshot (Unlistable e) = Inl e"
    by (simp add: directorySnapshot_def)
  have snap: "directorySnapshot fs = Inl e \<longleftrightarrow> fs = Unlistable e" for e
    by (cases fs) (auto simp: directorySnapshot_def)
  have f: "\<forall>e. getAddedChangesetFiles env git g fs = Inl e
         \<longleftrightarrow> fst (explicitStage env git g) = None
             \<and> fst (branchStage env git (snd (explicitStage env git g))) = None
             \<and> fs = Unlistable e"
    by (auto simp: getAddedChangesetFiles_stages snap split: option.splits)
  have h: "(\<forall>e. fs \<noteq> Unlistable e) \<longrightarrow> (\<exists>files. getAddedChangesetFiles env git g fs = Inr files)"
  proof
    assume "\<forall>e. fs \<noteq> Unlistable e"
    with f have "\<forall>e. getAddedChangesetFiles env git g fs \<noteq> Inl e" by blast
    then show "\<exists>files. getAddedChangesetFiles env git g fs = Inr files"
      by (cases "getAddedChangesetFiles env git g fs") auto
  qed
  from a b c d e f h show ?thesis
    by (intro conjI)
qed

theorem detector_falls_back_to_snapshot_witness:
  "explicitShas noEnv = None \<and> baseRef noEnv = None
   \<and> getAddedChangesetFiles noEnv brokenGit () twoChangesets = Inr [''b.md'', ''a.md'']
   \<and> fst (explicitStage ciEnv brokenGit ()) = None
   \<and> fst (branchStage ciEnv brokenGit (snd (explicitStage ciEnv brokenGit ()))) = None
   \<and> getAddedChangesetFiles ciEnv brokenGit () Absent = Inr []
   \<and> getAddedChangesetFiles ciEnv brokenGit () (Unlistable EACCES) = Inl EACCES"
proof -
  have e: "explicitShas noEnv = None \<and> baseRef noEnv = None"
    by (simp add: explicitShas_def baseRef_def noEnv_def orElse_def truthy_def)
  have s: "directorySnapshot twoChangesets = Inr [''b.md'', ''a.md'']"
    by (simp add: directorySnapshot_def twoChangesets_def isChangesetFile_def endsWith_def)
  have x: "fst (explicitStage ciEnv brokenGit ()) = None"
    by (simp add: explicitStage_def explicitShas_def ciEnv_def orElse_def truthy_def
        tryExplicitShaComparison_def ensureCommitAvailable_def brokenGit_def)
  have y: "fst (branchStage ciEnv brokenGit (snd (explicitStage ciEnv brokenGit ()))) = None"
    by (simp add: branchStage_def baseRef_def ciEnv_def tryBaseBranchComparison_def
        brokenGit_def)
  from detector_falls_back_to_snapshot [of noEnv brokenGit "()" twoChangesets]
    detector_falls_back_to_snapshot [of ciEnv brokenGit "()" Absent]
    detector_falls_back_to_snapshot [of ciEnv brokenGit "()" "Unlistable EACCES"] e s x y
  show ?thesis by simp
qed

section \<open>The merger leaves a directory with at most one changeset alone\<close>

text \<open>
  C4. When the directory can be listed and at most one of its names ends in
  \<^verbatim>\<open>.md\<close> and is not \<^verbatim>\<open>README.md\<close>, the merger reports that nothing is to be
  merged and returns the directory it was given: nothing written, nothing removed.
\<close>

theorem merge_noop_at_most_one:
  assumes "readdirSync fs = Inr names" and "length (filter isChangesetFile names) \<le> 1"
  shows "main rnd now fs = (NoMergeNeeded, fs)"
  using assms by (simp add: main_def)

theorem merge_noop_at_most_one_witness:
  "readdirSync singletonDir = Inr [''README.md'', ''config.json'', ''only-change.md'']
   \<and> length (filter isChangesetFile [''README.md'', ''config.json'', ''only-change.md'']) \<le> 1
   \<and> main (0, 0) 9 singletonDir = (NoMergeNeeded, singletonDir)"
proof -
  have r: "readdirSync singletonDir = Inr [''README.md'', ''config.json'', ''only-change.md'']"
    by (simp add: singletonDir_def readdirSync_def)
  have l: "length (filter isChangesetFile [''README.md'', ''config.json'', ''only-change.md''])
      \<le> 1"
    by (simp add: isChangesetFile_def endsWith_def)
  from merge_noop_at_most_one [OF r l] r l show ?thesis by simp
qed

section \<open>The chronological order of the merged description\<close>

lemma insertBy_byMtime: "insertBy byMtime x ys = insort_key mtime x ys"
  by (induction ys) (simp_all add: byMtime_def)

lemma sortBy_byMtime: "sortBy byMtime xs = sort_key mtime xs"
proof -
  have "insertBy byMtime = insort_key mtime"
    by (intro ext) (rule insertBy_byMtime)
  then show ?thesis by (simp add: sortBy_def sort_key_def)
qed

lemma strict_filter_single:
  fixes cs :: "changeset list"
  assumes "sorted_wrt (\<lambda>a b. mtime a < mtime b) cs" and "k \<in> set cs"
  shows "filter (\<lambda>x. mtime k = mtime x) cs = [k]"
  using assms
proof (induction cs)
  case Nil
  then show ?case by simp
next
  case (Cons c cs)
  show ?case
  proof (cases "k = c")
    case True
    from Cons.prems(1) have "\<forall>x \<in> set cs. mtime c < mtime x" by simp
    then have "filter (\<lambda>x. mtime c = mtime x) cs = []"
      by (auto simp: filter_empty_conv)
    with True show ?thesis by simp
  next
    case False
    with Cons.prems have k: "k \<in> set cs" and lt: "mtime c < mtime k" by auto
    from Cons.prems(1) have "sorted_wrt (\<lambda>a b. mtime a < mtime b) cs" by simp
    from Cons.IH [OF this k] lt show ?thesis by simp
  qed
qed

lemma strict_sorted_mtime:
  fixes cs :: "changeset list"
  assumes "sorted_wrt (\<lambda>a b. mtime a < mtime b) cs"
  shows "sorted (map mtime cs)"
proof -
  from assms have "sorted_wrt (\<lambda>a b. mtime a \<le> mtime b) cs"
    by (rule sorted_wrt_mono_rel [rotated]) simp
  then show ?thesis by (simp add: sorted_wrt_map)
qed

text \<open>
  With pairwise different millisecond values the sort has one possible result,
  whatever the order of its input.
\<close>

lemma sortBy_unique:
  fixes cs :: "changeset list"
  assumes perm: "mset xs = mset cs" and strict: "sorted_wrt (\<lambda>a b. mtime a < mtime b) cs"
  shows "sortBy byMtime xs = cs"
proof -
  have "filter (\<lambda>x. mtime k = mtime x) cs = filter (\<lambda>x. mtime k = mtime x) xs"
    if k: "k \<in> set cs" for k
  proof -
    have "mset (filter (\<lambda>x. mtime k = mtime x) xs)
        = mset (filter (\<lambda>x. mtime k = mtime x) cs)"
      by (simp add: perm)
    also have "\<dots> = {#k#}"
      by (simp add: strict_filter_single [OF strict k])
    finally have "filter (\<lambda>x. mtime k = mtime x) xs = [k]"
      by (simp only: mset_single_iff)
    with strict_filter_single [OF strict k] show ?thesis by simp
  qed
  with perm strict_sorted_mtime [OF strict] have "sort_key mtime xs = cs"
    by (intro properties_for_sort_key) simp_all
  then show ?thesis by (simp add: sortBy_byMtime)
qed

lemma parseAll_fileNames:
  "map fileName (parseAll fs files) = filter (\<lambda>f. parseChangeset fs f \<noteq> None) files"
  by (induction files) (auto split: option.splits)

lemma parseAll_map:
  "parseAll fs files = map (recordOf fs) (filter (\<lambda>f. parseChangeset fs f \<noteq> None) files)"
  by (induction files) (auto simp: recordOf_def split: option.splits)

lemma parseAll_mset:
  assumes "mset files' = mset files"
  shows "mset (parseAll fs files') = mset (parseAll fs files)"
proof -
  have "mset (parseAll fs files')
      = image_mset (recordOf fs)
          (filter_mset (\<lambda>f. parseChangeset fs f \<noteq> None) (mset files'))"
    by (simp add: parseAll_map)
  also have "\<dots> = mset (parseAll fs files)"
    by (simp add: parseAll_map assms)
  finally show ?thesis .
qed

text \<open>What a run that merges reports.\<close>

lemma main_merged:
  assumes "readdirSync fs = Inr names" and "main rnd now fs = (Merged r, fs')"
  shows "descriptions r = descriptionsOf (sortedChangesets fs (filter isChangesetFile names))
       \<and> highestBumpType r
           = getHighestBumpType (map type (sortedChangesets fs (filter isChangesetFile names)))
       \<and> mergedContent r = createMergedChangeset (highestBumpType r) (descriptions r)"
  using assms
  by (auto simp: main_def Let_def split: if_splits sum.splits prod.splits)

text \<open>
  The time the merger sorts by is the time of the file rounded to a whole
  millisecond. Two file times at least one millisecond apart give different
  values, in the same order; two file times closer than that may give the same
  value.
\<close>

lemma parseChangeset_mtime:
  assumes "parseChangeset fs f = Some p"
  shows "\<exists>n. lookupNode fs f = Inr n \<and> mtime p = dateFromNs (mtimeNs n)"
  using assms
  by (auto simp: parseChangeset_def readFileSync_def statSync_def Let_def
      split: sum.splits option.splits)

lemma dateFromNs_apart: "a + 1000000 \<le> b \<Longrightarrow> dateFromNs a < dateFromNs b"
  unfolding dateFromNs_def by linarith

text \<open>
  C6, at two inputs. In the first, two files both parse, the newer one with the
  empty description that \<^verbatim>\<open>parseChangeset\<close> gives to a text without description
  segment: the merged description is the first description alone, while the two
  descriptions joined by a blank line would end in that blank line. In the second,
  two files with descriptions \<^verbatim>\<open>Older\<close> and \<^verbatim>\<open>Newer\<close> have strictly increasing
  modification times, 0.2 milliseconds apart, and the directory enumerates the
  newer one first: both get the same whole millisecond, the sort leaves them as
  enumerated, and the merged description has \<^verbatim>\<open>Newer\<close> before \<^verbatim>\<open>Older\<close>.
\<close>

theorem merged_description_counterexample:
  "parseChangeset emptyDescriptionDir ''a.md''
     = Some \<lparr>type = ''patch'', description = ''Fix typo'', mtime = 1\<rparr>
   \<and> parseChangeset emptyDescriptionDir ''b.md''
     = Some \<lparr>type = ''minor'', description = [], mtime = 2\<rparr>
   \<and> join ''\<newline>\<newline>''
        (descriptionsOf (sortedChangesets emptyDescriptionDir [''a.md'', ''b.md'']))
       = ''Fix typo''
   \<and> join ''\<newline>\<newline>'' [''Fix typo'', []] = ''Fix typo\<newline>\<newline>''
   \<and> join ''\<newline>\<newline>''
        (descriptionsOf (sortedChangesets emptyDescriptionDir [''a.md'', ''b.md'']))
       \<noteq> join ''\<newline>\<newline>'' [''Fix typo'', []]
   \<and> fst (main (0, 0) 9 emptyDescriptionDir) =
       Merged \<lparr>mergedFileName = ''merged-bright-apple.md'', highestBumpType = ''minor'',
               descriptions = [''Fix typo''],
               mergedContent = changesetText ''minor'' ''Fix typo'',
               removed = [''a.md'', ''b.md'']\<rparr>
   \<and> lookupNode closeTimesDir ''older.md''
       = Inr \<lparr>content = Some (changesetText ''patch'' ''Older''), mtimeNs = 5000100000\<rparr>
   \<and> lookupNode closeTimesDir ''newer.md''
       = Inr \<lparr>content = Some (changesetText ''patch'' ''Newer''), mtimeNs = 5000300000\<rparr>
   \<and> (5000100000 :: int) < 5000300000
   \<and> parseChangeset closeTimesDir ''older.md''
       = Some \<lparr>type = ''patch'', description = ''Older'', mtime = 5000\<rparr>
   \<and> parseChangeset closeTimesDir ''newer.md''
       = Some \<lparr>type = ''patch'', description = ''Newer'', mtime = 5000\<rparr>
   \<and> fst (main (0, 0) 9 closeTimesDir) =
       Merged \<lparr>mergedFileName = ''merged-bright-apple.md'', highestBumpType = ''patch'',
               descriptions = [''Newer'', ''Older''],
               mergedContent = changesetText ''patch'' ''Newer\<newline>\<newline>Older'',
               removed = [''newer.md'', ''older.md'']\<rparr>"
  by (simp add: emptyDescriptionDir_def closeTimesDir_def changesetText_def
      bareDeclaration_def merge_defs fs_read_defs matcher_defs)

text \<open>
  C6, as the code has it. The modification time the merger compares is the whole
  millisecond of \<^verbatim>\<open>stats.mtime.getTime()\<close>, the time of the file rounded; file
  times at least one millisecond apart keep their order under it. Let \<open>cs\<close> be the
  records of the files that parse, in strictly increasing order of that
  millisecond value, the directory enumerating the files in any order. The
  descriptions that are merged are the descriptions of \<open>cs\<close> that are not empty,
  in the order of \<open>cs\<close> and unchanged; they are all the descriptions of \<open>cs\<close> when
  none is empty. Another enumeration of the same files gives the same
  descriptions. The merged file holds them joined by a blank line, after the front
  matter.
\<close>

theorem merged_description_chronological:
  assumes "mset (parseAll fs files) = mset cs"
    and "sorted_wrt (\<lambda>a b. mtime a < mtime b) cs"
  shows "descriptionsOf (sortedChangesets fs files)
           = filter (\<lambda>d. d \<noteq> []) (map description cs)
       \<and> ((\<forall>c \<in> set cs. description c \<noteq> [])
            \<longrightarrow> descriptionsOf (sortedChangesets fs files) = map description cs)
       \<and> (\<forall>files'. mset files' = mset files
            \<longrightarrow> descriptionsOf (sortedChangesets fs files')
                = descriptionsOf (sortedChangesets fs files))
       \<and> (\<forall>rnd now names r fs'.
             readdirSync fs = Inr names \<and> files = filter isChangesetFile names
             \<and> main rnd now fs = (Merged r, fs')
            \<longrightarrow> mergedContent r =
                  ''---\<newline>'' @ [CHR 0x27] @ PACKAGE_NAME @ [CHR 0x27] @ '': ''
                    @ highestBumpType r @ ''\<newline>---\<newline>\<newline>''
                    @ join ''\<newline>\<newline>'' (filter (\<lambda>d. d \<noteq> []) (map description cs))
                    @ ''\<newline>'')
       \<and> (\<forall>f p. parseChangeset fs f = Some p
            \<longrightarrow> (\<exists>n. lookupNode fs f = Inr n \<and> mtime p = dateFromNs (mtimeNs n)))
       \<and> (\<forall>a b. a + 1000000 \<le> b \<longrightarrow> dateFromNs a < dateFromNs b)"
proof -
  have link: "\<forall>f p. parseChangeset fs f = Some p
      \<longrightarrow> (\<exists>n. lookupNode fs f = Inr n \<and> mtime p = dateFromNs (mtimeNs n))"
    by (intro allI impI) (rule parseChangeset_mtime)
  have apart: "\<forall>a b. a + 1000000 \<le> b \<longrightarrow> dateFromNs a < dateFromNs b"
    by (intro allI impI) (rule dateFromNs_apart)
  have sorted: "sortedChangesets fs files = cs"
    unfolding sortedChangesets_def by (rule sortBy_unique [OF assms])
  have descs: "descriptionsOf (sortedChangesets fs files)
      = filter (\<lambda>d. d \<noteq> []) (map description cs)"
    by (simp add: sorted descriptionsOf_def filter_map comp_def)
  have full: "(\<forall>c \<in> set cs. description c \<noteq> [])
      \<longrightarrow> descriptionsOf (sortedChangesets fs files) = map description cs"
    by (simp add: sorted descriptionsOf_def)
  have order: "\<forall>files'. mset files' = mset files
      \<longrightarrow> descriptionsOf (sortedChangesets fs files')
          = descriptionsOf (sortedChangesets fs files)"
  proof (intro allI impI)
    fix files'
    assume "mset files' = mset files"
    then have "mset (parseAll fs files') = mset (parseAll fs files)"
      by (rule parseAll_mset)
    with assms(1) have "mset (parseAll fs files') = mset cs"
      by simp
    then have "sortedChangesets fs files' = cs"
      unfolding sortedChangesets_def by (rule sortBy_unique [OF _ assms(2)])
    with sorted show "descriptionsOf (sortedChangesets fs files')
        = descriptionsOf (sortedChangesets fs files)"
      by simp
  qed
  have content: "\<forall>rnd now names r fs'.
      readdirSync fs = Inr names \<and> files = filter isChangesetFile names
      \<and> main rnd now fs = (Merged r, fs')
      \<longrightarrow> mergedContent r =
            ''---\<newline>'' @ [CHR 0x27] @ PACKAGE_NAME @ [CHR 0x27] @ '': ''
              @ highestBumpType r @ ''\<newline>---\<newline>\<newline>''
              @ join ''\<newline>\<newline>'' (filter (\<lambda>d. d \<noteq> []) (map description cs))
              @ ''\<newline>''"
  proof (intro allI impI)
    fix rnd now names r fs'
    assume h: "readdirSync fs = Inr names \<and> files = filter isChangesetFile names
      \<and> main rnd now fs = (Merged r, fs')"
    then have l: "readdirSync fs = Inr names" and m: "main rnd now fs = (Merged r, fs')"
      and f: "files = filter isChangesetFile names"
      by simp_all
    from main_merged [OF l m] f
    have "descriptions r = descriptionsOf (sortedChangesets fs files)"
      and "mergedContent r = createMergedChangeset (highestBumpType r) (descriptions r)"
      by simp_all
    with descs show "mergedContent r =
        ''---\<newline>'' @ [CHR 0x27] @ PACKAGE_NAME @ [CHR 0x27] @ '': ''
          @ highestBumpType r @ ''\<newline>---\<newline>\<newline>''
          @ join ''\<newline>\<newline>'' (filter (\<lambda>d. d \<noteq> []) (map description cs))
          @ ''\<newline>''"
      by (simp add: createMergedChangeset_def)
  qed
  from descs full order content link apart show ?thesis
    by (intro conjI)
qed

lemma parseAll_twoChangesets: "parseAll twoChangesets [''b.md'', ''a.md''] = [recB, recA]"
  by (simp add: recA_def recB_def twoChangesets_def changesetText_def parseChangeset_def
      fs_read_defs matcher_defs split_def trim_def)

theorem merged_description_chronological_witness:
  "mset (parseAll twoChangesets [''b.md'', ''a.md'']) = mset [recA, recB]
   \<and> sorted_wrt (\<lambda>a b. mtime a < mtime b) [recA, recB]
   \<and> descriptionsOf (sortedChangesets twoChangesets [''b.md'', ''a.md''])
       = [''Fix typo'', ''Add feature'']
   \<and> descriptionsOf (sortedChangesets twoChangesets [''a.md'', ''b.md''])
       = [''Fix typo'', ''Add feature'']"
proof -
  have p: "mset (parseAll twoChangesets [''b.md'', ''a.md'']) = mset [recA, recB]"
    unfolding parseAll_twoChangesets by simp
  have s: "sorted_wrt (\<lambda>a b. mtime a < mtime b) [recA, recB]"
    by (simp add: recA_def recB_def)
  have m: "mset [''a.md'', ''b.md''] = mset [''b.md'', ''a.md'']"
    by simp
  have d: "filter (\<lambda>d. d \<noteq> []) (map description [recA, recB])
      = [''Fix typo'', ''Add feature'']"
    by (simp add: recA_def recB_def)
  note w = merged_description_chronological [OF p s]
  from w have one: "descriptionsOf (sortedChangesets twoChangesets [''b.md'', ''a.md''])
      = filter (\<lambda>d. d \<noteq> []) (map description [recA, recB])"
    by (rule conjunct1)
  from w have "\<forall>files'. mset files' = mset [''b.md'', ''a.md'']
      \<longrightarrow> descriptionsOf (sortedChangesets twoChangesets files')
          = descriptionsOf (sortedChangesets twoChangesets [''b.md'', ''a.md''])"
    by (rule conjunct1 [OF conjunct2 [OF conjunct2]])
  with m have two: "descriptionsOf (sortedChangesets twoChangesets [''a.md'', ''b.md''])
      = descriptionsOf (sortedChangesets twoChangesets [''b.md'', ''a.md''])"
    by blast
  from p s one two d show ?thesis by (simp only: simp_thms)
qed

section \<open>Equal modification times\<close>

lemma sortedChangesets_stable:
  "filter (\<lambda>c. mtime c = t) (sortedChangesets fs files)
     = filter (\<lambda>c. mtime c = t) (parseAll fs files)"
  by (simp add: sortedChangesets_def sortBy_byMtime sort_key_stable)

lemma descriptionsOf_filter:
  "descriptionsOf (filter P cs)
     = map description (filter (\<lambda>c. P c \<and> description c \<noteq> []) cs)"
  by (simp add: descriptionsOf_def conj_commute)

lemma main_sameTime:
  "fst (main (0, 0) 9 (Listing sameTimeEntries)) =
     Merged \<lparr>mergedFileName = ''merged-bright-apple.md'', highestBumpType = ''patch'',
             descriptions = [''First'', ''Second''],
             mergedContent = changesetText ''patch'' ''First\<newline>\<newline>Second'',
             removed = [''first.md'', ''second.md'']\<rparr>"
  by (simp add: sameTimeEntries_def changesetText_def merge_defs fs_read_defs matcher_defs)

lemma main_sameTime_rev:
  "fst (main (0, 0) 9 (Listing (rev sameTimeEntries))) =
     Merged \<lparr>mergedFileName = ''merged-bright-apple.md'', highestBumpType = ''patch'',
             descriptions = [''Second'', ''First''],
             mergedContent = changesetText ''patch'' ''Second\<newline>\<newline>First'',
             removed = [''second.md'', ''first.md'']\<rparr>"
  by (simp add: sameTimeEntries_def changesetText_def merge_defs fs_read_defs matcher_defs)

text \<open>
  C10. The records that share a modification time \<open>t\<close> stand in the sorted list in
  the order in which they were parsed, and so do their descriptions; the records
  are parsed in the order in which the directory enumerates the files. The merged
  output therefore depends on the enumeration: the two sample entries, written in
  the same millisecond, merge to \<^verbatim>\<open>First\<close> before \<^verbatim>\<open>Second\<close> when enumerated in
  this order and to \<^verbatim>\<open>Second\<close> before \<^verbatim>\<open>First\<close> when enumerated in the other.
\<close>

theorem merge_sort_stable:
  "filter (\<lambda>c. mtime c = t) (sortedChangesets fs files)
     = filter (\<lambda>c. mtime c = t) (parseAll fs files)
   \<and> map description
        (filter (\<lambda>c. mtime c = t \<and> description c \<noteq> []) (sortedChangesets fs files))
     = map description
        (filter (\<lambda>c. mtime c = t \<and> description c \<noteq> []) (parseAll fs files))
   \<and> map fileName (parseAll fs files) = filter (\<lambda>f. parseChangeset fs f \<noteq> None) files
   \<and> set (rev sameTimeEntries) = set sameTimeEntries
   \<and> fst (main (0, 0) 9 (Listing sameTimeEntries)) =
       Merged \<lparr>mergedFileName = ''merged-bright-apple.md'', highestBumpType = ''patch'',
               descriptions = [''First'', ''Second''],
               mergedContent = changesetText ''patch'' ''First\<newline>\<newline>Second'',
               removed = [''first.md'', ''second.md'']\<rparr>
   \<and> fst (main (0, 0) 9 (Listing (rev sameTimeEntries))) =
       Merged \<lparr>mergedFileName = ''merged-bright-apple.md'', highestBumpType = ''patch'',
               descriptions = [''Second'', ''First''],
               mergedContent = changesetText ''patch'' ''Second\<newline>\<newline>First'',
               removed = [''second.md'', ''first.md'']\<rparr>"
proof -
  have "descriptionsOf (filter (\<lambda>c. mtime c = t) (sortedChangesets fs files))
      = descriptionsOf (filter (\<lambda>c. mtime c = t) (parseAll fs files))"
    by (simp only: sortedChangesets_stable)
  then have d: "map description
        (filter (\<lambda>c. mtime c = t \<and> description c \<noteq> []) (sortedChangesets fs files))
     = map description
        (filter (\<lambda>c. mtime c = t \<and> description c \<noteq> []) (parseAll fs files))"
    by (simp only: descriptionsOf_filter)
  have s: "set (rev sameTimeEntries) = set sameTimeEntries"
    by simp
  from sortedChangesets_stable d parseAll_fileNames s main_sameTime main_sameTime_rev
  show ?thesis by (intro conjI)
qed

section \<open>The name of the merged changeset is not checked\<close>

text \<open>
  The loop over the parsed changesets removes all of them when each is a readable
  entry and no name occurs twice.
\<close>

lemma removeOriginals_all:
  assumes "distinct (map fileName cs)"
    and "\<forall>c \<in> set cs. \<exists>n. map_of es (fileName c) = Some n \<and> content n \<noteq> None"
  shows "removeOriginals (Listing es) cs
           = (Inr (map fileName cs),
              Listing (filter (\<lambda>e. fst e \<notin> set (map fileName cs)) es))"
  using assms
proof (induction cs arbitrary: es)
  case Nil
  then show ?case by simp
next
  case (Cons c cs)
  from Cons.prems(2) obtain n where n: "map_of es (fileName c) = Some n" "content n \<noteq> None"
    by auto
  then have u: "unlinkSync (Listing es) (fileName c) = Inr (Listing (AList.delete (fileName c) es))"
    by (simp add: unlinkSync_def)
  have rest: "\<forall>c' \<in> set cs. \<exists>n. map_of (AList.delete (fileName c) es) (fileName c') = Some n
      \<and> content n \<noteq> None"
  proof
    fix c'
    assume c': "c' \<in> set cs"
    with Cons.prems(1) have "fileName c' \<noteq> fileName c" by (auto simp: image_iff)
    with Cons.prems(2) c' show "\<exists>n. map_of (AList.delete (fileName c) es) (fileName c') = Some n
        \<and> content n \<noteq> None"
      by (simp add: AList.delete_conv')
  qed
  from Cons.prems(1) have "distinct (map fileName cs)" by simp
  from Cons.IH [OF this rest]
  have "removeOriginals (Listing (AList.delete (fileName c) es)) cs
      = (Inr (map fileName cs),
         Listing (filter (\<lambda>e. fst e \<notin> set (map fileName cs)) (AList.delete (fileName c) es)))" .
  with u show ?case
    by (auto simp: AList.delete_eq case_prod_unfold intro: filter_cong)
qed

lemma parsed_is_readable:
  assumes "parseChangeset (Listing es) f \<noteq> None"
  shows "\<exists>n. map_of es f = Some n \<and> content n \<noteq> None"
  using assms
  by (auto simp: parseChangeset_def readFileSync_def lookupNode_def
      split: option.splits sum.splits)

text \<open>
  When the generated name is not in the directory, a merge that proceeds leaves the
  directory in the expected state: the files that parsed are gone, every other
  entry is as it was, and one entry is new, the merged changeset. The names of a
  directory are pairwise different.
\<close>

lemma merge_with_fresh_name:
  assumes d: "distinct (map fst es)"
    and n: "2 \<le> length (filter isChangesetFile (map fst es))"
    and p: "parseAll (Listing es) (filter isChangesetFile (map fst es)) \<noteq> []"
    and fresh: "''merged-'' @ generateChangesetName rnd @ ''.md'' \<notin> fst ` set es"
  shows "\<exists>r. main rnd now (Listing es) =
           (Merged r,
            Listing (filter (\<lambda>e. \<not> (isChangesetFile (fst e)
                                  \<and> parseChangeset (Listing es) (fst e) \<noteq> None)) es
                  @ [(''merged-'' @ generateChangesetName rnd @ ''.md'',
                      \<lparr>content = Some (mergedContent r), mtimeNs = now\<rparr>)]))
         \<and> mergedFileName r = ''merged-'' @ generateChangesetName rnd @ ''.md''
         \<and> set (removed r)
             = {f \<in> fst ` set es. isChangesetFile f \<and> parseChangeset (Listing es) f \<noteq> None}"
proof -
  let ?fs = "Listing es"
  let ?files = "filter isChangesetFile (map fst es)"
  let ?cs = "sortedChangesets ?fs ?files"
  let ?name = "''merged-'' @ generateChangesetName rnd @ ''.md''"
  let ?highest = "getHighestBumpType (map type ?cs)"
  let ?merged = "createMergedChangeset ?highest (descriptionsOf ?cs)"
  let ?node = "\<lparr>content = Some ?merged, mtimeNs = now\<rparr>"
  let ?parsed = "\<lambda>f. isChangesetFile f \<and> parseChangeset ?fs f \<noteq> None"
  have names: "mset (map fileName ?cs) = mset (filter (\<lambda>f. parseChangeset ?fs f \<noteq> None) ?files)"
  proof -
    have "mset ?cs = mset (parseAll ?fs ?files)"
      by (simp add: sortedChangesets_def sortBy_byMtime)
    then have "mset (map fileName ?cs) = mset (map fileName (parseAll ?fs ?files))"
      by (metis mset_map)
    then show ?thesis by (simp only: parseAll_fileNames)
  qed
  from names have "set (map fileName ?cs)
      = set (filter (\<lambda>f. parseChangeset ?fs f \<noteq> None) ?files)"
    by (rule mset_eq_setD)
  then have set_names: "set (map fileName ?cs) = {f \<in> fst ` set es. ?parsed f}"
    by auto
  from d have "distinct (filter (\<lambda>f. parseChangeset ?fs f \<noteq> None) ?files)"
    by simp
  with names have dist: "distinct (map fileName ?cs)"
    by (metis mset_eq_imp_distinct_iff)
  from fresh have absent: "map_of es ?name = None"
    by (simp add: map_of_eq_None_iff)
  then have written: "writeFileSync ?fs ?name ?merged now = Inr (Listing (es @ [(?name, ?node)]))"
    by (simp add: writeFileSync_def)
  have present: "\<forall>c \<in> set ?cs. \<exists>n. map_of (es @ [(?name, ?node)]) (fileName c) = Some n
      \<and> content n \<noteq> None"
  proof
    fix c
    assume "c \<in> set ?cs"
    then have "fileName c \<in> set (map fileName ?cs)" by simp
    with set_names have "parseChangeset ?fs (fileName c) \<noteq> None" by simp
    from parsed_is_readable [OF this]
    show "\<exists>n. map_of (es @ [(?name, ?node)]) (fileName c) = Some n \<and> content n \<noteq> None"
      by (auto simp: map_add_def)
  qed
  from fresh set_names have notin: "?name \<notin> set (map fileName ?cs)"
    by simp
  have keep: "filter (\<lambda>e. fst e \<notin> set (map fileName ?cs)) es
      = filter (\<lambda>e. \<not> ?parsed (fst e)) es"
  proof (rule filter_cong [OF refl])
    fix e
    assume "e \<in> set es"
    then have "fst e \<in> fst ` set es" by simp
    then show "(fst e \<notin> set (map fileName ?cs)) = (\<not> ?parsed (fst e))"
      unfolding set_names by simp
  qed
  have remove: "removeOriginals (Listing (es @ [(?name, ?node)])) ?cs
      = (Inr (map fileName ?cs), Listing (filter (\<lambda>e. \<not> ?parsed (fst e)) es @ [(?name, ?node)]))"
    unfolding removeOriginals_all [OF dist present] using notin keep by simp
  let ?r = "\<lparr>mergedFileName = ?name, highestBumpType = ?highest,
      descriptions = descriptionsOf ?cs, mergedContent = ?merged,
      removed = map fileName ?cs\<rparr>"
  from n have more: "\<not> length ?files \<le> 1" by simp
  have "main rnd now ?fs
      = (Merged ?r, Listing (filter (\<lambda>e. \<not> ?parsed (fst e)) es @ [(?name, ?node)]))"
    using more p written remove
    by (simp add: main_def readdirSync_def Let_def)
  moreover have "mergedContent ?r = ?merged" and "mergedFileName ?r = ?name"
    and "set (removed ?r) = {f \<in> fst ` set es. ?parsed f}"
    using set_names by simp_all
  ultimately show ?thesis by (intro exI [of _ ?r]) simp
qed

text \<open>
  C8. The directory holds a file \<^verbatim>\<open>merged-bright-apple.md\<close> that is no changeset,
  and two changesets; both random indices come out as 0. The merged changeset is
  written under the name of the existing file, whose content is replaced.
\<close>

theorem merged_name_overwrites_existing_file:
  "readFileSync overwriteDir ''merged-bright-apple.md'' = Inr ''# Notes for the next release''
   \<and> main (0, 0) 9 overwriteDir =
       (Merged \<lparr>mergedFileName = ''merged-bright-apple.md'', highestBumpType = ''minor'',
                descriptions = [''Fix typo'', ''Add feature''],
                mergedContent = changesetText ''minor'' ''Fix typo\<newline>\<newline>Add feature'',
                removed = [''a.md'', ''b.md'']\<rparr>,
        Listing [(''merged-bright-apple.md'',
               \<lparr>content = Some (changesetText ''minor'' ''Fix typo\<newline>\<newline>Add feature''),
                mtimeNs = 9\<rparr>)])"
  by (simp add: overwriteDir_def changesetText_def merge_defs fs_read_defs matcher_defs)

text \<open>
  C7. The directory holds the changeset \<^verbatim>\<open>merged-bright-apple.md\<close> of an earlier
  merge and one more changeset; both random indices come out as 0. The run reports
  a merge, but the merged changeset is written over the first source and then
  removed with it: the directory is left without any file.
\<close>

theorem merged_record_removed_with_its_source:
  "main (0, 0) 9 remergeDir =
     (Merged \<lparr>mergedFileName = ''merged-bright-apple.md'', highestBumpType = ''minor'',
              descriptions = [''Add feature'', ''Fix typo''],
              mergedContent = changesetText ''minor'' ''Add feature\<newline>\<newline>Fix typo'',
              removed = [''merged-bright-apple.md'', ''a.md'']\<rparr>,
      Listing [])"
  by (simp add: remergeDir_def changesetText_def merge_defs fs_read_defs matcher_defs)

end
